theory Spec2Isabelle
  imports Main
begin

section \<open>Platform: what the handlers call but do not define\<close>

text \<open>
  The WebSocket relay exists in three variants: \<^verbatim>\<open>src/index.js\<close> (prefix \<open>idx_\<close>),
  \<^verbatim>\<open>src/server.js\<close> (prefix \<open>srv_\<close>) and an unnamed copy of the latter
  (prefix \<open>p0_\<close>). A WebSocket object is identified by a number. Parsed JSON values are a
  datatype; an object is the list of its properties, each key occurring once.
\<close>

type_synonym ws = nat

datatype json =
    JNull
  | JBool bool
  | JNum int
  | JStr string
  | JArr "json list"
  | JObj "(string \<times> json) list"

text \<open>The SQL statements the handlers hand to the store, by statement text and arguments.\<close>

datatype query =
    UpsertStation string string
  | TouchStation string
  | UpdateStation string string
  | SelectRecent string int

datatype error = QueryError | SendError ws

text \<open>
  Every observable call a handler makes, in order: \<open>Stringify\<close> is one evaluation of
  \<^verbatim>\<open>JSON.stringify\<close>, \<open>Send w d\<close> a call \<^verbatim>\<open>ws.send(d)\<close> that returned,
  \<open>Ping\<close> and \<open>Close\<close> the calls \<^verbatim>\<open>ws.ping()\<close> and \<^verbatim>\<open>ws.close()\<close>,
  \<open>Query\<close> a statement issued to the store (whether or not it then fails).
\<close>

datatype effect =
    Stringify json
  | Send ws string
  | Ping ws
  | Close ws
  | Query query

text \<open>
  The libraries and the process environment are parameters: the JSON codec
  (\<open>JSON_parse\<close> is \<open>None\<close> where \<^verbatim>\<open>JSON.parse\<close> throws), the string methods
  \<^verbatim>\<open>trim\<close> and \<^verbatim>\<open>toUpperCase\<close> (Unicode-aware in JavaScript), whether a
  statement is rejected by the store, whether \<^verbatim>\<open>send\<close> or \<^verbatim>\<open>ping\<close> on a socket
  throws, and the variable \<^verbatim>\<open>process.env.DEFAULT_CHANNEL\<close>. The handlers themselves
  only test strings for emptiness and compare them.
\<close>

record platform =
  JSON_stringify :: "json \<Rightarrow> string"
  JSON_parse :: "string \<Rightarrow> json option"
  trim :: "string \<Rightarrow> string"
  toUpperCase :: "string \<Rightarrow> string"
  query_ok :: "query \<Rightarrow> bool"
  send_throws :: "ws \<Rightarrow> bool"
  ping_throws :: "ws \<Rightarrow> bool"
  env_DEFAULT_CHANNEL :: "string option"

section \<open>Server state\<close>

text \<open>
  Per socket: the transport's \<open>readyState\<close> (read, never written, by the handlers), the
  properties \<^verbatim>\<open>_channel\<close>, \<^verbatim>\<open>_callsign\<close> and \<^verbatim>\<open>isAlive\<close>, whether the interval
  timer created for it is running, and whether its event listeners have been attached.
  The listeners close over \<^verbatim>\<open>channel\<close> and \<^verbatim>\<open>callsign\<close>, which hold the values
  stored in the two properties.
\<close>

record socket =
  readyState :: nat
  ws_channel :: string
  ws_callsign :: string
  isAlive :: bool
  heartbeat :: bool
  listening :: bool

text \<open>
  \<^verbatim>\<open>channelRooms\<close> (\<^verbatim>\<open>channelClients\<close> in server.js) maps a channel to a
  \<^verbatim>\<open>Set\<close> of sockets; a \<^verbatim>\<open>Set\<close> iterates in insertion order, so it is a list
  without repetition.
\<close>

record server =
  channelRooms :: "string \<rightharpoonup> ws list"
  sockets :: "ws \<Rightarrow> socket"

definition OPEN :: nat where
  "OPEN = 1"

definition set_add :: "ws \<Rightarrow> ws list \<Rightarrow> ws list" where
  "set_add w xs = (if w \<in> set xs then xs else xs @ [w])"

definition set_delete :: "ws \<Rightarrow> ws list \<Rightarrow> ws list" where
  "set_delete w xs = filter (\<lambda>x. x \<noteq> w) xs"

type_synonym outcome = "server \<times> effect list \<times> (error + unit)"

section \<open>Broadcast\<close>

text \<open>
  The \<^verbatim>\<open>for (const ws of s)\<close> loop of \<^verbatim>\<open>broadcastToChannel\<close>. There is no
  \<^verbatim>\<open>try\<close> around \<^verbatim>\<open>ws.send\<close>: a send that throws ends the loop.
\<close>

fun broadcast_loop :: "platform \<Rightarrow> (ws \<Rightarrow> socket) \<Rightarrow> string \<Rightarrow> ws list \<Rightarrow> effect list \<times> (error + unit)" where
  "broadcast_loop P socks data [] = ([], Inr ())"
| "broadcast_loop P socks data (w # rest) =
     (if readyState (socks w) = OPEN then
        (if send_throws P w then ([], Inl (SendError w))
         else (case broadcast_loop P socks data rest of
                 (tr, r) \<Rightarrow> (Send w data # tr, r)))
      else broadcast_loop P socks data rest)"

definition broadcastToChannel :: "platform \<Rightarrow> server \<Rightarrow> string \<Rightarrow> json \<Rightarrow> outcome" where
  "broadcastToChannel P s channel obj =
     (case channelRooms s channel of
        None \<Rightarrow> (s, [], Inr ())
      | Some members \<Rightarrow>
          (let data = JSON_stringify P obj in
           case broadcast_loop P (sockets s) data members of
             (tr, r) \<Rightarrow> (s, Stringify obj # tr, r)))"

section \<open>Request parameters\<close>

text \<open>
  \<^verbatim>\<open>url.searchParams.get(name)\<close> is a string or \<^verbatim>\<open>null\<close>. \<open>or_else x d\<close> is
  \<^verbatim>\<open>String(x || d)\<close>: the default replaces \<^verbatim>\<open>null\<close> and the empty string.
  \<open>norm\<close> is the helper of server.js, \<^verbatim>\<open>String(s || "").trim().toUpperCase()\<close>,
  which index.js writes in place.
\<close>

record request =
  q_callsign :: "string option"
  q_channel :: "string option"

definition or_else :: "string option \<Rightarrow> string \<Rightarrow> string" where
  "or_else x d = (case x of None \<Rightarrow> d | Some v \<Rightarrow> if v = [] then d else v)"

definition norm :: "platform \<Rightarrow> string option \<Rightarrow> string" where
  "norm P x = toUpperCase P (trim P (or_else x []))"

definition DEFAULT_CHANNEL :: "platform \<Rightarrow> string" where
  "DEFAULT_CHANNEL P = or_else (env_DEFAULT_CHANNEL P) ''7.050''"

section \<open>Events sent by the server\<close>

definition presence_event :: "string \<Rightarrow> string \<Rightarrow> json" where
  "presence_event callsign channel =
     JObj [(''kind'', JStr ''presence''),
           (''data'', JObj [(''callsign'', JStr callsign), (''channel'', JStr channel)])]"

definition hello_event :: "string \<Rightarrow> string \<Rightarrow> json" where
  "hello_event callsign channel =
     JObj [(''kind'', JStr ''hello''), (''ok'', JBool True),
           (''callsign'', JStr callsign), (''channel'', JStr channel)]"

definition pong_event :: json where
  "pong_event = JObj [(''kind'', JStr ''pong'')]"

text \<open>\<^verbatim>\<open>msg?.kind\<close>: the property of an object, \<^verbatim>\<open>undefined\<close> for anything else.\<close>

fun kind_of :: "json \<Rightarrow> json option" where
  "kind_of (JObj kvs) = map_of kvs ''kind''"
| "kind_of _ = None"

section \<open>index.js\<close>

definition joinRoom :: "server \<Rightarrow> string \<Rightarrow> ws \<Rightarrow> server" where
  "joinRoom s channel w =
     s\<lparr>channelRooms := (channelRooms s)
          (channel \<mapsto> set_add w (case channelRooms s channel of None \<Rightarrow> [] | Some xs \<Rightarrow> xs))\<rparr>"

definition leaveRoom :: "server \<Rightarrow> string \<Rightarrow> ws \<Rightarrow> server" where
  "leaveRoom s channel w =
     (case channelRooms s channel of
        None \<Rightarrow> s
      | Some xs \<Rightarrow>
          (let ys = set_delete w xs in
           if length ys = 0 then s\<lparr>channelRooms := (channelRooms s)(channel := None)\<rparr>
           else s\<lparr>channelRooms := (channelRooms s)(channel \<mapsto> ys)\<rparr>))"

definition attach :: "server \<Rightarrow> ws \<Rightarrow> server" where
  "attach s w = s\<lparr>sockets := (sockets s)(w := (sockets s w)\<lparr>listening := True\<rparr>)\<rparr>"

text \<open>
  \<^verbatim>\<open>wss.on("connection")\<close> of index.js. Nothing is rejected: the socket joins the room
  first, and only the store write and the presence broadcast depend on the callsign. A
  rejected store write or a throwing send leaves the handler before the listeners are
  attached.
\<close>

definition idx_connection :: "platform \<Rightarrow> server \<Rightarrow> ws \<Rightarrow> request \<Rightarrow> outcome" where
  "idx_connection P s w req =
     (let callsign = toUpperCase P (trim P (or_else (q_callsign req) []));
          channel = or_else (q_channel req) ''7.050'';
          s1 = s\<lparr>sockets := (sockets s)
                 (w := (sockets s w)\<lparr>ws_channel := channel, ws_callsign := callsign\<rparr>)\<rparr>;
          s2 = joinRoom s1 channel w;
          up = Query (UpsertStation callsign channel)
      in if callsign \<noteq> [] then
           (if query_ok P (UpsertStation callsign channel) then
              (case broadcastToChannel P s2 channel (presence_event callsign channel) of
                 (s3, tr, Inl e) \<Rightarrow> (s3, up # tr, Inl e)
               | (s3, tr, Inr u) \<Rightarrow> (attach s3 w, up # tr, Inr ()))
            else (s2, [up], Inl QueryError))
         else (attach s2 w, [], Inr ()))"

text \<open>\<^verbatim>\<open>ws.on("message")\<close> of index.js.\<close>

definition idx_message :: "platform \<Rightarrow> server \<Rightarrow> ws \<Rightarrow> string \<Rightarrow> outcome" where
  "idx_message P s w raw =
     (let callsign = ws_callsign (sockets s w);
          channel = ws_channel (sockets s w)
      in case JSON_parse P raw of
           None \<Rightarrow> (s, [], Inr ())
         | Some msg \<Rightarrow>
             if kind_of msg = Some (JStr ''ping'') then
               (let touch = (if callsign \<noteq> [] then [Query (TouchStation callsign)] else []) in
                if callsign \<noteq> [] \<and> \<not> query_ok P (TouchStation callsign)
                then (s, touch, Inl QueryError)
                else if send_throws P w
                then (s, touch @ [Stringify pong_event], Inl (SendError w))
                else (s, touch @ [Stringify pong_event, Send w (JSON_stringify P pong_event)],
                      Inr ()))
             else broadcastToChannel P s channel msg)"

text \<open>\<^verbatim>\<open>ws.on("close")\<close> of index.js.\<close>

definition idx_close :: "server \<Rightarrow> ws \<Rightarrow> server" where
  "idx_close s w = leaveRoom s (ws_channel (sockets s w)) w"

section \<open>server.js\<close>

definition cleanupChannelIfEmpty :: "server \<Rightarrow> string \<Rightarrow> server" where
  "cleanupChannelIfEmpty s channel =
     (case channelRooms s channel of
        None \<Rightarrow> s
      | Some xs \<Rightarrow>
          if length xs = 0 then s\<lparr>channelRooms := (channelRooms s)(channel := None)\<rparr> else s)"

text \<open>\<^verbatim>\<open>channelClients.get(channel)?.delete(ws)\<close>.\<close>

definition delete_member :: "server \<Rightarrow> string \<Rightarrow> ws \<Rightarrow> server" where
  "delete_member s channel w =
     (case channelRooms s channel of
        None \<Rightarrow> s
      | Some xs \<Rightarrow> s\<lparr>channelRooms := (channelRooms s)(channel \<mapsto> set_delete w xs)\<rparr>)"

text \<open>
  \<^verbatim>\<open>wss.on("connection")\<close> of server.js. Its join is the body of \<open>joinRoom\<close>
  written in place. The whole body is inside \<^verbatim>\<open>try\<close>, whose
  \<^verbatim>\<open>catch\<close> calls \<^verbatim>\<open>ws.close()\<close>: after a rejected store write or a throwing send
  the socket is already in the room and no listener is attached.
\<close>

definition srv_connection :: "platform \<Rightarrow> server \<Rightarrow> ws \<Rightarrow> request \<Rightarrow> outcome" where
  "srv_connection P s w req =
     (let callsign = norm P (q_callsign req);
          channel = or_else (q_channel req) (DEFAULT_CHANNEL P)
      in if callsign = [] \<or> channel = [] then (s, [Close w], Inr ())
         else
           (let s1 = joinRoom s channel w;
                s2 = s1\<lparr>sockets := (sockets s1)
                       (w := (sockets s1 w)\<lparr>ws_channel := channel, ws_callsign := callsign,
                                             isAlive := True\<rparr>)\<rparr>;
                up = Query (UpsertStation callsign channel);
                hello = hello_event callsign channel
            in if \<not> query_ok P (UpsertStation callsign channel) then (s2, [up, Close w], Inr ())
               else if send_throws P w then (s2, [up, Stringify hello, Close w], Inr ())
               else (s2\<lparr>sockets := (sockets s2)
                          (w := (sockets s2 w)\<lparr>heartbeat := True, listening := True\<rparr>)\<rparr>,
                     [up, Stringify hello, Send w (JSON_stringify P hello)], Inr ())))"

text \<open>\<^verbatim>\<open>ws.on("pong")\<close> of server.js.\<close>

definition srv_pong :: "server \<Rightarrow> ws \<Rightarrow> server" where
  "srv_pong s w = s\<lparr>sockets := (sockets s)(w := (sockets s w)\<lparr>isAlive := True\<rparr>)\<rparr>"

text \<open>
  The callback of \<^verbatim>\<open>setInterval(..., 30_000)\<close> of server.js. Its body is inside
  \<^verbatim>\<open>try\<close> with an empty \<^verbatim>\<open>catch\<close>: a throwing ping skips the store write, a
  rejected store write is dropped. \<open>isAlive\<close> is assigned and never read.
\<close>

definition srv_heartbeat :: "platform \<Rightarrow> server \<Rightarrow> ws \<Rightarrow> outcome" where
  "srv_heartbeat P s w =
     (let callsign = ws_callsign (sockets s w);
          channel = ws_channel (sockets s w);
          s1 = s\<lparr>sockets := (sockets s)(w := (sockets s w)\<lparr>isAlive := False\<rparr>)\<rparr>
      in if ping_throws P w then (s1, [], Inr ())
         else (s1, [Ping w, Query (UpdateStation callsign channel)], Inr ()))"

text \<open>\<^verbatim>\<open>ws.on("close")\<close> of server.js.\<close>

definition srv_close :: "server \<Rightarrow> ws \<Rightarrow> server" where
  "srv_close s w =
     (let channel = ws_channel (sockets s w);
          s1 = s\<lparr>sockets := (sockets s)(w := (sockets s w)\<lparr>heartbeat := False\<rparr>)\<rparr>;
          s2 = delete_member s1 channel w
      in cleanupChannelIfEmpty s2 channel)"

text \<open>\<^verbatim>\<open>ws.on("message")\<close> of server.js has an empty body.\<close>

definition srv_message :: "platform \<Rightarrow> server \<Rightarrow> ws \<Rightarrow> string \<Rightarrow> outcome" where
  "srv_message P s w raw = (s, [], Inr ())"

section \<open>The unnamed copy of server.js\<close>

text \<open>
  It differs from server.js in three places: the channel has no default, the interval
  callback only refreshes the store, and the close listener does not remove an emptied
  room.
\<close>

definition p0_connection :: "platform \<Rightarrow> server \<Rightarrow> ws \<Rightarrow> request \<Rightarrow> outcome" where
  "p0_connection P s w req =
     (let callsign = norm P (q_callsign req);
          channel = or_else (q_channel req) []
      in if callsign = [] \<or> channel = [] then (s, [Close w], Inr ())
         else
           (let s1 = joinRoom s channel w;
                s2 = s1\<lparr>sockets := (sockets s1)
                       (w := (sockets s1 w)\<lparr>ws_channel := channel, ws_callsign := callsign\<rparr>)\<rparr>;
                up = Query (UpsertStation callsign channel);
                hello = hello_event callsign channel
            in if \<not> query_ok P (UpsertStation callsign channel) then (s2, [up, Close w], Inr ())
               else if send_throws P w then (s2, [up, Stringify hello, Close w], Inr ())
               else (s2\<lparr>sockets := (sockets s2)
                          (w := (sockets s2 w)\<lparr>heartbeat := True, listening := True\<rparr>)\<rparr>,
                     [up, Stringify hello, Send w (JSON_stringify P hello)], Inr ())))"

definition p0_interval :: "platform \<Rightarrow> server \<Rightarrow> ws \<Rightarrow> outcome" where
  "p0_interval P s w =
     (s, [Query (UpdateStation (ws_callsign (sockets s w)) (ws_channel (sockets s w)))], Inr ())"

definition p0_close :: "server \<Rightarrow> ws \<Rightarrow> server" where
  "p0_close s w =
     (let channel = ws_channel (sockets s w);
          s1 = s\<lparr>sockets := (sockets s)(w := (sockets s w)\<lparr>heartbeat := False\<rparr>)\<rparr>
      in delete_member s1 channel w)"

section \<open>Event dispatch\<close>

text \<open>
  What the WebSocket library and the timers deliver. A listener runs only once attached,
  the interval callback only while its timer runs. Each listener is taken to run to
  completion: the events that could arrive while it awaits the store are not
  interleaved with it. \<open>Transport w n\<close> is the transport of
  \<open>w\<close> moving to ready state \<open>n\<close> with no event reaching the server (a silently dead
  peer).
\<close>

datatype event =
    Connection ws request
  | Message ws string
  | Closed ws
  | Tick ws
  | Pong ws
  | Transport ws nat

definition set_readyState :: "server \<Rightarrow> ws \<Rightarrow> nat \<Rightarrow> server" where
  "set_readyState s w n = s\<lparr>sockets := (sockets s)(w := (sockets s w)\<lparr>readyState := n\<rparr>)\<rparr>"

fun idx_event :: "platform \<Rightarrow> server \<Rightarrow> event \<Rightarrow> outcome" where
  "idx_event P s (Connection w req) = idx_connection P s w req"
| "idx_event P s (Message w raw) =
     (if listening (sockets s w) then idx_message P s w raw else (s, [], Inr ()))"
| "idx_event P s (Closed w) =
     (let s1 = set_readyState s w 3 in
      if listening (sockets s w) then (idx_close s1 w, [], Inr ()) else (s1, [], Inr ()))"
| "idx_event P s (Tick w) = (s, [], Inr ())"
| "idx_event P s (Pong w) = (s, [], Inr ())"
| "idx_event P s (Transport w n) = (set_readyState s w n, [], Inr ())"

fun srv_event :: "platform \<Rightarrow> server \<Rightarrow> event \<Rightarrow> outcome" where
  "srv_event P s (Connection w req) = srv_connection P s w req"
| "srv_event P s (Message w raw) =
     (if listening (sockets s w) then srv_message P s w raw else (s, [], Inr ()))"
| "srv_event P s (Closed w) =
     (let s1 = set_readyState s w 3 in
      if listening (sockets s w) then (srv_close s1 w, [], Inr ()) else (s1, [], Inr ()))"
| "srv_event P s (Tick w) =
     (if heartbeat (sockets s w) then srv_heartbeat P s w else (s, [], Inr ()))"
| "srv_event P s (Pong w) =
     (if listening (sockets s w) then (srv_pong s w, [], Inr ()) else (s, [], Inr ()))"
| "srv_event P s (Transport w n) = (set_readyState s w n, [], Inr ())"

fun p0_event :: "platform \<Rightarrow> server \<Rightarrow> event \<Rightarrow> outcome" where
  "p0_event P s (Connection w req) = p0_connection P s w req"
| "p0_event P s (Message w raw) = (s, [], Inr ())"
| "p0_event P s (Closed w) =
     (let s1 = set_readyState s w 3 in
      if listening (sockets s w) then (p0_close s1 w, [], Inr ()) else (s1, [], Inr ()))"
| "p0_event P s (Tick w) =
     (if heartbeat (sockets s w) then p0_interval P s w else (s, [], Inr ()))"
| "p0_event P s (Pong w) = (s, [], Inr ())"
| "p0_event P s (Transport w n) = (set_readyState s w n, [], Inr ())"

text \<open>Events in sequence; the trace is the concatenation of the handlers' traces.\<close>

fun run :: "(server \<Rightarrow> event \<Rightarrow> outcome) \<Rightarrow> server \<Rightarrow> event list \<Rightarrow> server \<times> effect list" where
  "run step s [] = (s, [])"
| "run step s (e # es) =
     (case step s e of
        (s1, t1, r) \<Rightarrow> (case run step s1 es of (s2, t2) \<Rightarrow> (s2, t1 @ t2)))"

text \<open>The server before any connection: no room, every socket open and untouched.\<close>

definition fresh_socket :: socket where
  "fresh_socket = \<lparr>readyState = OPEN, ws_channel = [], ws_callsign = [], isAlive = False,
                   heartbeat = False, listening = False\<rparr>"

definition initial :: server where
  "initial = \<lparr>channelRooms = Map.empty, sockets = (\<lambda>w. fresh_socket)\<rparr>"

text \<open>What a socket was sent, and whether a room holds it.\<close>

fun sent_to :: "ws \<Rightarrow> effect list \<Rightarrow> string list" where
  "sent_to w [] = []"
| "sent_to w (Send v d # tr) = (if v = w then d # sent_to w tr else sent_to w tr)"
| "sent_to w (e # tr) = sent_to w tr"

definition member :: "server \<Rightarrow> string \<Rightarrow> ws \<Rightarrow> bool" where
  "member s channel w = (case channelRooms s channel of None \<Rightarrow> False | Some xs \<Rightarrow> w \<in> set xs)"

fun is_stringify :: "effect \<Rightarrow> bool" where
  "is_stringify (Stringify j) = True"
| "is_stringify e = False"

section \<open>GET /v1/messages/recent\<close>

text \<open>
  A row of table \<^verbatim>\<open>messages\<close>; \<^verbatim>\<open>id\<close> is its primary key. The statement selects
  every column (some under another name), so a result row is the table row.
\<close>

record message_row =
  m_id :: int
  m_channel :: string
  m_callsign :: string
  m_toCallsign :: "string option"
  m_type :: string
  m_payload :: json
  m_created_at :: nat

text \<open>
  \<^verbatim>\<open>req.query\<close>: \<open>r_limit\<close> is \<open>None\<close> for an absent or empty parameter and
  \<open>Some n\<close> for text that \<^verbatim>\<open>Number\<close> reads as the integer \<open>n\<close>.
\<close>

record recent_request =
  r_channel :: "string option"
  r_limit :: "int option"

datatype response = Messages "message_row list" | Failed nat string

text \<open>\<^verbatim>\<open>where channel=$1 order by id desc limit $2\<close>.\<close>

definition select_recent :: "message_row list \<Rightarrow> string \<Rightarrow> int \<Rightarrow> message_row list" where
  "select_recent table channel limit =
     take (nat limit) (rev (sort_key m_id (filter (\<lambda>r. m_channel r = channel) table)))"

definition clamp_limit :: "int \<Rightarrow> int option \<Rightarrow> int" where
  "clamp_limit cap l = min cap (max 1 (case l of None \<Rightarrow> 100 | Some n \<Rightarrow> n))"

definition idx_messages_recent :: "platform \<Rightarrow> message_row list \<Rightarrow> recent_request \<Rightarrow> response" where
  "idx_messages_recent P table req =
     (let channel = or_else (r_channel req) ''7.050'';
          limit = clamp_limit 200 (r_limit req)
      in if query_ok P (SelectRecent channel limit)
         then Messages (map (\<lambda>x. x\<lparr>m_payload := m_payload x\<rparr>)
                          (rev (select_recent table channel limit)))
         else Failed 500 ''recent_failed'')"

definition srv_messages_recent :: "platform \<Rightarrow> message_row list \<Rightarrow> recent_request \<Rightarrow> response" where
  "srv_messages_recent P table req =
     (let channel = or_else (r_channel req) (DEFAULT_CHANNEL P);
          limit = clamp_limit 500 (r_limit req)
      in if query_ok P (SelectRecent channel limit)
         then Messages (rev (select_recent table channel limit))
         else Failed 500 ''recent_failed'')"

section \<open>A sample platform\<close>

text \<open>
  For closed instances only: a codec that writes an event as its \<open>kind\<close> and reads a
  non-empty frame as the event of that kind, string methods for ASCII text, a store that
  accepts every statement, and sockets that never throw. The general theorems hold for
  every platform.
\<close>

definition sample_stringify :: "json \<Rightarrow> string" where
  "sample_stringify j = (case kind_of j of Some (JStr k) \<Rightarrow> k | _ \<Rightarrow> [])"

definition sample_parse :: "string \<Rightarrow> json option" where
  "sample_parse raw = (if raw = [] then None else Some (JObj [(''kind'', JStr raw)]))"

text \<open>
  The sample string methods strip the six ASCII white-space characters and map the
  letters a to z, which is what the JavaScript methods do on the ASCII strings of the
  samples.
\<close>

definition sample_is_space :: "char \<Rightarrow> bool" where
  "sample_is_space c = (c \<in> set [CHR 0x20, CHR 0x09, CHR 0x0A, CHR 0x0B, CHR 0x0C, CHR 0x0D])"

definition sample_trim :: "string \<Rightarrow> string" where
  "sample_trim s = rev (dropWhile sample_is_space (rev (dropWhile sample_is_space s)))"

definition sample_upper :: "char \<Rightarrow> char" where
  "sample_upper c =
     (case map_of (zip ''abcdefghijklmnopqrstuvwxyz'' ''ABCDEFGHIJKLMNOPQRSTUVWXYZ'') c of
        None \<Rightarrow> c
      | Some u \<Rightarrow> u)"

definition sample_toUpperCase :: "string \<Rightarrow> string" where
  "sample_toUpperCase s = map sample_upper s"

definition sample :: platform where
  "sample = \<lparr>JSON_stringify = sample_stringify, JSON_parse = sample_parse,
             trim = sample_trim, toUpperCase = sample_toUpperCase,
             query_ok = (\<lambda>q. True), send_throws = (\<lambda>w. False), ping_throws = (\<lambda>w. False),
             env_DEFAULT_CHANNEL = None\<rparr>"

text \<open>
  Sample states. In \<open>room_of_three\<close> sockets 1, 2 and 3 have joined channel 7.050 and
  the transport of socket 2 has closed (ready state 3) without its close event having
  run; in \<open>room_of_two\<close> sockets 1 and 2 have joined and both are open.
\<close>

definition room_of_three :: server where
  "room_of_three =
     \<lparr>channelRooms = [''7.050'' \<mapsto> [1, 2, 3]],
      sockets = (\<lambda>w. fresh_socket\<lparr>ws_channel := ''7.050'', ws_callsign := ''K1ABC'',
                                    listening := True\<rparr>)
                (2 := fresh_socket\<lparr>readyState := 3, ws_channel := ''7.050'',
                                    ws_callsign := ''W2XYZ'', listening := True\<rparr>)\<rparr>"

definition room_of_two :: server where
  "room_of_two =
     \<lparr>channelRooms = [''7.050'' \<mapsto> [1, 2]],
      sockets = (\<lambda>w. fresh_socket\<lparr>ws_channel := ''7.050'', ws_callsign := ''K1ABC'',
                                    listening := True\<rparr>)\<rparr>"

text \<open>Platforms on which \<^verbatim>\<open>send\<close> throws for socket 1, respectively socket 2.\<close>

definition first_send_throws :: platform where
  "first_send_throws = sample\<lparr>send_throws := (\<lambda>w. w = 1)\<rparr>"

definition second_send_throws :: platform where
  "second_send_throws = sample\<lparr>send_throws := (\<lambda>w. w = 2)\<rparr>"

text \<open>
  A platform whose store rejects every statement, one whose environment sets
  \<^verbatim>\<open>DEFAULT_CHANNEL\<close> to 14.070, and the state index.js reaches when socket 1 connects
  to 7.050 without a callsign.
\<close>

definition store_down :: platform where
  "store_down = sample\<lparr>query_ok := (\<lambda>q. False)\<rparr>"

definition other_default :: platform where
  "other_default = sample\<lparr>env_DEFAULT_CHANNEL := Some ''14.070''\<rparr>"

definition anonymous_room :: server where
  "anonymous_room =
     \<lparr>channelRooms = [''7.050'' \<mapsto> [1]],
      sockets = (\<lambda>w. fresh_socket)
                (1 := fresh_socket\<lparr>ws_channel := ''7.050'', listening := True\<rparr>)\<rparr>"

text \<open>
  Sample connection requests: one without a callsign, one without a channel, two with
  both (the second to be trimmed), and one whose callsign is two spaces.
\<close>

definition anonymous_request :: request where
  "anonymous_request = \<lparr>q_callsign = None, q_channel = Some ''7.050''\<rparr>"

definition channelless_request :: request where
  "channelless_request = \<lparr>q_callsign = Some ''k1abc'', q_channel = None\<rparr>"

definition full_request :: request where
  "full_request = \<lparr>q_callsign = Some ''k1abc'', q_channel = Some ''7.050''\<rparr>"

definition other_request :: request where
  "other_request = \<lparr>q_callsign = Some '' w2xyz'', q_channel = Some ''7.050''\<rparr>"

definition blank_request :: request where
  "blank_request = \<lparr>q_callsign = Some ''  '', q_channel = Some ''7.050''\<rparr>"

text \<open>
  Sample event sequences. In \<open>missed_pong\<close> socket 1 joins and three timer ticks
  pass with no pong in between (a peer that died silently); in \<open>join_then_close\<close>
  socket 1 joins and closes.
\<close>

definition missed_pong :: "event list" where
  "missed_pong = [Connection 1 full_request, Tick 1, Tick 1, Tick 1]"

definition join_then_close :: "event list" where
  "join_then_close = [Connection 1 full_request, Closed 1]"

text \<open>A sample \<^verbatim>\<open>messages\<close> table and a request for the two newest rows.\<close>

definition row :: "int \<Rightarrow> string \<Rightarrow> string \<Rightarrow> message_row" where
  "row i ch txt =
     \<lparr>m_id = i, m_channel = ch, m_callsign = ''K1ABC'', m_toCallsign = None,
      m_type = ''CW_MORSE'', m_payload = JObj [(''text'', JStr txt)], m_created_at = nat i\<rparr>"

definition sample_table :: "message_row list" where
  "sample_table = [row 1 ''7.050'' ''cq'', row 2 ''14.070'' ''qrz'', row 4 ''7.050'' ''73'',
                   row 3 ''7.050'' ''de'']"

definition two_newest :: recent_request where
  "two_newest = \<lparr>r_channel = None, r_limit = Some 2\<rparr>"

section \<open>The sample states are reached\<close>

text \<open>
  Both sample states arise in index.js from the initial state: the room and the sockets
  in it are those left by the connections of sockets 1 and 2, respectively of sockets
  1, 2 and 3 followed by the transport of socket 2 closing unnoticed.
\<close>

lemma room_of_two_reached:
  "channelRooms (fst (run (idx_event sample) initial
       [Connection 1 full_request, Connection 2 full_request])) ''7.050'' =
     channelRooms room_of_two ''7.050''
   \<and> map (sockets (fst (run (idx_event sample) initial
       [Connection 1 full_request, Connection 2 full_request]))) [1, 2] =
     map (sockets room_of_two) [1, 2]"
  by code_simp

lemma room_of_three_reached:
  "channelRooms (fst (run (idx_event sample) initial
       [Connection 1 full_request, Connection 2 other_request, Connection 3 full_request,
        Transport 2 3])) ''7.050'' =
     channelRooms room_of_three ''7.050''
   \<and> map (sockets (fst (run (idx_event sample) initial
       [Connection 1 full_request, Connection 2 other_request, Connection 3 full_request,
        Transport 2 3]))) [1, 2, 3] = map (sockets room_of_three) [1, 2, 3]"
  by code_simp

lemma anonymous_room_reached:
  "fst (run (idx_event sample) initial [Connection 1 anonymous_request]) = anonymous_room"
  by (simp add: idx_connection_def anonymous_request_def or_else_def sample_def sample_trim_def
      sample_toUpperCase_def joinRoom_def set_add_def attach_def initial_def anonymous_room_def
      fresh_socket_def Let_def)

section \<open>Properties of broadcast\<close>

lemma broadcast_loop_no_throw:
  "\<forall>w \<in> set members. readyState (socks w) = OPEN \<longrightarrow> \<not> send_throws P w \<Longrightarrow>
   broadcast_loop P socks data members =
     (map (\<lambda>w. Send w data) (filter (\<lambda>w. readyState (socks w) = OPEN) members), Inr ())"
  by (induction members) auto

lemma broadcast_loop_skips_closed:
  "readyState (socks c) \<noteq> OPEN \<Longrightarrow>
   broadcast_loop P socks data (before @ c # after) = broadcast_loop P socks data (before @ after)"
  by (induction before) (auto split: prod.splits)

lemma sent_to_map_Send:
  "sent_to w (map (\<lambda>v. Send v d) xs) = map (\<lambda>v. d) (filter (\<lambda>v. v = w) xs)"
  by (induction xs) auto

lemma broadcast_loop_sends:
  "e \<in> set (fst (broadcast_loop P socks data members)) \<Longrightarrow>
   \<exists>v \<in> set members. e = Send v data \<and> readyState (socks v) = OPEN"
  by (induction members arbitrary: e) (auto split: if_splits prod.splits)

lemma broadcast_loop_error:
  "snd (broadcast_loop P socks data members) = Inl err \<Longrightarrow>
   \<exists>v \<in> set members. err = SendError v \<and> readyState (socks v) = OPEN \<and> send_throws P v"
  by (induction members) (auto split: if_splits prod.splits)

lemma broadcast_loop_no_stringify:
  "filter is_stringify (fst (broadcast_loop P socks data members)) = []"
  by (induction members) (auto split: prod.splits)

text \<open>
  Claim C3, as the code has it. For a channel without a membership set
  \<open>broadcastToChannel\<close> returns at once: nothing is serialized, nothing sent. For a
  channel with a membership set one call evaluates \<^verbatim>\<open>JSON.stringify\<close> exactly once,
  returns the server state it was given (no member is removed), sends only that one
  string and only to members whose ready state is open, and can end in error only
  through a throwing \<^verbatim>\<open>send\<close> on an open member; a member that is not open is passed
  over without error. Provided \<^verbatim>\<open>send\<close> returns normally on the open members, every
  open member is sent the string, in the set's order, and the call ends without error.
\<close>

theorem broadcast_serializes_once_to_open_members:
  "(channelRooms s channel = None \<longrightarrow> broadcastToChannel P s channel obj = (s, [], Inr ()))
   \<and> (channelRooms s channel = Some members \<longrightarrow>
        fst (broadcastToChannel P s channel obj) = s
        \<and> filter is_stringify (fst (snd (broadcastToChannel P s channel obj))) = [Stringify obj]
        \<and> (\<forall>w d. Send w d \<in> set (fst (snd (broadcastToChannel P s channel obj))) \<longrightarrow>
              w \<in> set members \<and> readyState (sockets s w) = OPEN \<and> d = JSON_stringify P obj)
        \<and> (\<forall>err. snd (snd (broadcastToChannel P s channel obj)) = Inl err \<longrightarrow>
              (\<exists>v \<in> set members. err = SendError v \<and> readyState (sockets s v) = OPEN
                 \<and> send_throws P v)))
   \<and> (channelRooms s channel = Some members
        \<and> (\<forall>w \<in> set members. readyState (sockets s w) = OPEN \<longrightarrow> \<not> send_throws P w) \<longrightarrow>
        broadcastToChannel P s channel obj =
          (s, Stringify obj #
              map (\<lambda>w. Send w (JSON_stringify P obj))
                  (filter (\<lambda>w. readyState (sockets s w) = OPEN) members),
           Inr ()))"
proof -
  let ?data = "JSON_stringify P obj"
  have none: "channelRooms s channel = None \<Longrightarrow> broadcastToChannel P s channel obj = (s, [], Inr ())"
    by (simp add: broadcastToChannel_def)
  have some: "broadcastToChannel P s channel obj =
                (s, Stringify obj # fst (broadcast_loop P (sockets s) ?data members),
                 snd (broadcast_loop P (sockets s) ?data members))"
    if "channelRooms s channel = Some members"
    using that by (simp add: broadcastToChannel_def Let_def split: prod.splits)
  have gen: "fst (broadcastToChannel P s channel obj) = s
        \<and> filter is_stringify (fst (snd (broadcastToChannel P s channel obj))) = [Stringify obj]
        \<and> (\<forall>w d. Send w d \<in> set (fst (snd (broadcastToChannel P s channel obj))) \<longrightarrow>
              w \<in> set members \<and> readyState (sockets s w) = OPEN \<and> d = JSON_stringify P obj)
        \<and> (\<forall>err. snd (snd (broadcastToChannel P s channel obj)) = Inl err \<longrightarrow>
              (\<exists>v \<in> set members. err = SendError v \<and> readyState (sockets s v) = OPEN
                 \<and> send_throws P v))"
    if r: "channelRooms s channel = Some members"
    using broadcast_loop_sends [of _ P "sockets s" ?data members]
      broadcast_loop_error [of P "sockets s" ?data members]
    by (auto simp: some [OF r] broadcast_loop_no_stringify)
  have all: "broadcastToChannel P s channel obj =
          (s, Stringify obj #
              map (\<lambda>w. Send w (JSON_stringify P obj))
                  (filter (\<lambda>w. readyState (sockets s w) = OPEN) members),
           Inr ())"
    if "channelRooms s channel = Some members"
      and "\<forall>w \<in> set members. readyState (sockets s w) = OPEN \<longrightarrow> \<not> send_throws P w"
    using that by (simp add: broadcastToChannel_def broadcast_loop_no_throw)
  show ?thesis
    using none gen all by blast
qed

theorem broadcast_serializes_once_to_open_members_witness:
  "channelRooms initial ''14.070'' = None
   \<and> broadcastToChannel sample initial ''14.070'' (JObj [(''kind'', JStr ''message'')]) =
       (initial, [], Inr ())
   \<and> channelRooms room_of_three ''7.050'' = Some [1, 2, 3]
   \<and> readyState (sockets room_of_three 1) = OPEN \<and> \<not> send_throws sample 1
   \<and> readyState (sockets room_of_three 2) \<noteq> OPEN
   \<and> readyState (sockets room_of_three 3) = OPEN \<and> \<not> send_throws sample 3
   \<and> broadcastToChannel sample room_of_three ''7.050'' (JObj [(''kind'', JStr ''message'')]) =
       (room_of_three,
        [Stringify (JObj [(''kind'', JStr ''message'')]), Send 1 ''message'', Send 3 ''message''],
        Inr ())"
proof -
  have h0: "channelRooms initial ''14.070'' = None"
    by (simp add: initial_def)
  have h1: "channelRooms room_of_three ''7.050'' = Some [1, 2, 3]"
    by (simp add: room_of_three_def)
  have h2: "\<forall>w \<in> set [1, 2, 3]. readyState (sockets room_of_three w) = OPEN \<longrightarrow>
              \<not> send_throws sample w"
    by (simp add: sample_def)
  show ?thesis
    using h0 h1 h2
      broadcast_serializes_once_to_open_members
        [where s = initial and channel = "''14.070''" and P = sample
           and obj = "JObj [(''kind'', JStr ''message'')]"]
      broadcast_serializes_once_to_open_members
        [where s = room_of_three and channel = "''7.050''" and P = sample
           and members = "[1, 2, 3]" and obj = "JObj [(''kind'', JStr ''message'')]"]
    by (simp add: room_of_three_def sample_def sample_stringify_def fresh_socket_def OPEN_def)
qed

text \<open>
  Claim C3 as stated fails in two places. Channel 14.070 has no membership set, and a
  broadcast to it serializes the event not once but never. And with \<^verbatim>\<open>send\<close>
  throwing on socket 1, a broadcast to the room of sockets 1, 2 and 3 ends in that error
  after the serialization: socket 3 is a member, open, and is sent nothing.
\<close>

theorem broadcast_can_serialize_nothing_or_stop_early:
  "channelRooms initial ''14.070'' = None
   \<and> broadcastToChannel sample initial ''14.070'' (JObj [(''kind'', JStr ''message'')]) =
       (initial, [], Inr ())
   \<and> member room_of_three ''7.050'' 3
   \<and> readyState (sockets room_of_three 3) = OPEN
   \<and> broadcastToChannel first_send_throws room_of_three ''7.050''
         (JObj [(''kind'', JStr ''message'')]) =
       (room_of_three, [Stringify (JObj [(''kind'', JStr ''message'')])], Inl (SendError 1))"
  by (simp add: broadcastToChannel_def room_of_three_def first_send_throws_def sample_def
      initial_def member_def fresh_socket_def OPEN_def)

text \<open>
  Claim C6, as the code has it. A member whose transport is not open when the loop
  reaches it is skipped (even if calling \<^verbatim>\<open>send\<close> on it would throw) and does not end
  the fan-out: provided \<^verbatim>\<open>send\<close> returns normally on the other open members, the call
  ends without error, every other open member is sent the event and the skipped member
  is sent nothing.
\<close>

theorem non_open_member_does_not_abort_fanout:
  assumes "channelRooms s channel = Some (before @ c # after)"
      and "readyState (sockets s c) \<noteq> OPEN"
      and "\<forall>w \<in> set (before @ after). readyState (sockets s w) = OPEN \<longrightarrow> \<not> send_throws P w"
  shows "\<exists>tr. broadcastToChannel P s channel obj = (s, tr, Inr ())
           \<and> (\<forall>w \<in> set (before @ after). readyState (sockets s w) = OPEN \<longrightarrow>
                 Send w (JSON_stringify P obj) \<in> set tr)
           \<and> (\<forall>d. Send c d \<notin> set tr)"
proof -
  let ?data = "JSON_stringify P obj"
  have "broadcast_loop P (sockets s) ?data (before @ c # after) =
        broadcast_loop P (sockets s) ?data (before @ after)"
    using assms(2) by (rule broadcast_loop_skips_closed)
  also have "\<dots> = (map (\<lambda>w. Send w ?data)
           (filter (\<lambda>w. readyState (sockets s w) = OPEN) (before @ after)), Inr ())"
    using assms(3) by (rule broadcast_loop_no_throw)
  finally show ?thesis
    using assms(1,2) by (auto simp: broadcastToChannel_def)
qed

theorem non_open_member_does_not_abort_fanout_witness:
  "channelRooms room_of_three ''7.050'' = Some ([1] @ 2 # [3])
   \<and> readyState (sockets room_of_three 2) \<noteq> OPEN
   \<and> send_throws second_send_throws 2
   \<and> readyState (sockets room_of_three 1) = OPEN \<and> \<not> send_throws second_send_throws 1
   \<and> readyState (sockets room_of_three 3) = OPEN \<and> \<not> send_throws second_send_throws 3
   \<and> broadcastToChannel second_send_throws room_of_three ''7.050''
         (JObj [(''kind'', JStr ''message'')]) =
       (room_of_three,
        [Stringify (JObj [(''kind'', JStr ''message'')]), Send 1 ''message'', Send 3 ''message''],
        Inr ())"
proof -
  have h1: "channelRooms room_of_three ''7.050'' = Some ([1] @ 2 # [3])"
    by (simp add: room_of_three_def)
  have h2: "readyState (sockets room_of_three 2) \<noteq> OPEN"
    by (simp add: room_of_three_def OPEN_def)
  have h3: "\<forall>w \<in> set ([1] @ [3]). readyState (sockets room_of_three w) = OPEN \<longrightarrow>
              \<not> send_throws second_send_throws w"
    by (simp add: second_send_throws_def sample_def)
  show ?thesis
    using h1 h2 h3
      non_open_member_does_not_abort_fanout [OF h1 h2 h3, of "JObj [(''kind'', JStr ''message'')]"]
    by (simp add: broadcastToChannel_def room_of_three_def second_send_throws_def sample_def
        sample_stringify_def fresh_socket_def OPEN_def Let_def)
qed

text \<open>
  Claim C6 as stated fails for a send that throws: with sockets 1 and 2 both open in
  the room and \<^verbatim>\<open>send\<close> throwing on socket 1, the call ends with that error after the
  serialization, and socket 2, open and able to receive, is sent nothing.
\<close>

theorem throwing_send_aborts_fanout:
  "channelRooms room_of_two ''7.050'' = Some [1, 2]
   \<and> readyState (sockets room_of_two 2) = OPEN
   \<and> \<not> send_throws first_send_throws 2
   \<and> broadcastToChannel first_send_throws room_of_two ''7.050''
         (JObj [(''kind'', JStr ''message'')]) =
       (room_of_two, [Stringify (JObj [(''kind'', JStr ''message'')])], Inl (SendError 1))"
  by (simp add: broadcastToChannel_def room_of_two_def first_send_throws_def sample_def
      fresh_socket_def OPEN_def)

section \<open>Properties of the message listener of index.js\<close>

text \<open>
  Claim C5, as the code has it. A parseable frame from socket \<open>w\<close> whose kind is not
  \<open>ping\<close> is relayed with its envelope unchanged: the parsed frame itself is what is
  serialized, once, and, provided \<^verbatim>\<open>send\<close> returns normally on the open members,
  sent to every open member of the channel of \<open>w\<close>. The sender is not excluded: if
  \<open>w\<close> is an open member of its channel it is sent its own frame back. Where the codec
  writes the parsed frame back as the text received, that very text is what every
  recipient is sent.
\<close>

theorem relay_reaches_open_members_and_sender:
  assumes "JSON_parse P raw = Some msg"
      and "kind_of msg \<noteq> Some (JStr ''ping'')"
      and "channelRooms s (ws_channel (sockets s w)) = Some members"
      and "\<forall>v \<in> set members. readyState (sockets s v) = OPEN \<longrightarrow> \<not> send_throws P v"
  shows "idx_message P s w raw =
           (s, Stringify msg #
               map (\<lambda>v. Send v (JSON_stringify P msg))
                   (filter (\<lambda>v. readyState (sockets s v) = OPEN) members),
            Inr ())
         \<and> (w \<in> set members \<and> readyState (sockets s w) = OPEN \<longrightarrow>
              JSON_stringify P msg \<in> set (sent_to w (fst (snd (idx_message P s w raw)))))
         \<and> (JSON_stringify P msg = raw \<longrightarrow>
              (\<forall>v \<in> set members. readyState (sockets s v) = OPEN \<longrightarrow>
                 raw \<in> set (sent_to v (fst (snd (idx_message P s w raw)))))
              \<and> (\<forall>v d. Send v d \<in> set (fst (snd (idx_message P s w raw))) \<longrightarrow> d = raw))"
proof -
  have eq: "idx_message P s w raw =
           (s, Stringify msg #
               map (\<lambda>v. Send v (JSON_stringify P msg))
                   (filter (\<lambda>v. readyState (sockets s v) = OPEN) members),
            Inr ())"
    using assms by (simp add: idx_message_def broadcastToChannel_def broadcast_loop_no_throw)
  show ?thesis
    unfolding eq by (auto simp: sent_to_map_Send filter_empty_conv)
qed

theorem relay_reaches_open_members_and_sender_witness:
  "JSON_parse sample ''offer'' = Some (JObj [(''kind'', JStr ''offer'')])
   \<and> kind_of (JObj [(''kind'', JStr ''offer'')]) \<noteq> Some (JStr ''ping'')
   \<and> channelRooms room_of_three (ws_channel (sockets room_of_three 1)) = Some [1, 2, 3]
   \<and> readyState (sockets room_of_three 1) = OPEN \<and> \<not> send_throws sample 1
   \<and> readyState (sockets room_of_three 2) \<noteq> OPEN
   \<and> readyState (sockets room_of_three 3) = OPEN \<and> \<not> send_throws sample 3
   \<and> idx_message sample room_of_three 1 ''offer'' =
       (room_of_three,
        [Stringify (JObj [(''kind'', JStr ''offer'')]), Send 1 ''offer'', Send 3 ''offer''],
        Inr ())
   \<and> ''offer'' \<in> set (sent_to 1 (fst (snd (idx_message sample room_of_three 1 ''offer''))))
   \<and> JSON_stringify sample (JObj [(''kind'', JStr ''offer'')]) = ''offer''
   \<and> ''offer'' \<in> set (sent_to 3 (fst (snd (idx_message sample room_of_three 1 ''offer''))))"
proof -
  have h1: "JSON_parse sample ''offer'' = Some (JObj [(''kind'', JStr ''offer'')])"
    by (simp add: sample_def sample_parse_def)
  have h2: "kind_of (JObj [(''kind'', JStr ''offer'')]) \<noteq> Some (JStr ''ping'')"
    by simp
  have h3: "channelRooms room_of_three (ws_channel (sockets room_of_three 1)) = Some [1, 2, 3]"
    by (simp add: room_of_three_def fresh_socket_def)
  have h4: "\<forall>v \<in> set [1, 2, 3]. readyState (sockets room_of_three v) = OPEN \<longrightarrow>
              \<not> send_throws sample v"
    by (simp add: sample_def)
  show ?thesis
    using h1 h2 h3 h4 relay_reaches_open_members_and_sender [OF h1 h2 h3 h4]
    by (simp add: room_of_three_def sample_def sample_stringify_def fresh_socket_def OPEN_def)
qed

text \<open>
  Claim C5 as stated fails on the sender: sockets 1 and 2 are open members of 7.050,
  socket 1 sends a frame of kind \<open>offer\<close>, and the first send of the fan-out goes to
  socket 1 itself.
\<close>

theorem relay_echoes_to_sender:
  "member room_of_two ''7.050'' 1
   \<and> ws_channel (sockets room_of_two 1) = ''7.050''
   \<and> JSON_parse sample ''offer'' = Some (JObj [(''kind'', JStr ''offer'')])
   \<and> idx_message sample room_of_two 1 ''offer'' =
       (room_of_two,
        [Stringify (JObj [(''kind'', JStr ''offer'')]), Send 1 ''offer'', Send 2 ''offer''],
        Inr ())"
  by (simp add: idx_message_def broadcastToChannel_def room_of_two_def sample_def
      sample_parse_def sample_stringify_def fresh_socket_def OPEN_def member_def Let_def)

text \<open>
  Claim C8, as the code has it. For a frame from socket \<open>w\<close> that parses to an event
  of kind \<open>ping\<close>, the listener of index.js issues the \<^verbatim>\<open>last_seen\<close> update for the
  socket's callsign when the socket has one (none for a socket that joined without a
  callsign); if the store accepts it and \<^verbatim>\<open>send\<close> returns normally on \<open>w\<close>, it then
  serializes the pong event and sends it to \<open>w\<close>, exactly once; if the store rejects the
  update the listener ends there and no pong is sent. In every case the state is
  unchanged and nothing is sent to anyone but \<open>w\<close>: the ping is not broadcast.
\<close>

theorem ping_answered_with_single_pong:
  assumes "JSON_parse P raw = Some msg"
      and "kind_of msg = Some (JStr ''ping'')"
  shows "((ws_callsign (sockets s w) \<noteq> [] \<longrightarrow>
             query_ok P (TouchStation (ws_callsign (sockets s w))))
          \<and> \<not> send_throws P w \<longrightarrow>
          idx_message P s w raw =
            (s, (if ws_callsign (sockets s w) \<noteq> []
                 then [Query (TouchStation (ws_callsign (sockets s w)))] else []) @
                [Stringify pong_event, Send w (JSON_stringify P pong_event)],
             Inr ()))
         \<and> (ws_callsign (sockets s w) \<noteq> []
             \<and> \<not> query_ok P (TouchStation (ws_callsign (sockets s w))) \<longrightarrow>
             idx_message P s w raw =
               (s, [Query (TouchStation (ws_callsign (sockets s w)))], Inl QueryError))
         \<and> (ws_callsign (sockets s w) \<noteq> [] \<longrightarrow>
               Query (TouchStation (ws_callsign (sockets s w)))
                 \<in> set (fst (snd (idx_message P s w raw))))
         \<and> (ws_callsign (sockets s w) = [] \<longrightarrow>
               (\<forall>q. Query q \<notin> set (fst (snd (idx_message P s w raw)))))
         \<and> fst (idx_message P s w raw) = s
         \<and> (\<forall>v d. Send v d \<in> set (fst (snd (idx_message P s w raw))) \<longrightarrow>
               v = w \<and> d = JSON_stringify P pong_event)
         \<and> length (sent_to w (fst (snd (idx_message P s w raw)))) \<le> 1"
  using assms by (auto simp: idx_message_def Let_def)

theorem ping_answered_with_single_pong_witness:
  "JSON_parse sample ''ping'' = Some (JObj [(''kind'', JStr ''ping'')])
   \<and> kind_of (JObj [(''kind'', JStr ''ping'')]) = Some (JStr ''ping'')
   \<and> ws_callsign (sockets room_of_two 1) = ''K1ABC''
   \<and> query_ok sample (TouchStation ''K1ABC'')
   \<and> \<not> send_throws sample 1
   \<and> idx_message sample room_of_two 1 ''ping'' =
       (room_of_two,
        [Query (TouchStation ''K1ABC''), Stringify (JObj [(''kind'', JStr ''pong'')]),
         Send 1 ''pong''],
        Inr ())
   \<and> \<not> query_ok store_down (TouchStation ''K1ABC'')
   \<and> idx_message store_down room_of_two 1 ''ping'' =
       (room_of_two, [Query (TouchStation ''K1ABC'')], Inl QueryError)"
proof -
  have h1: "JSON_parse sample ''ping'' = Some (JObj [(''kind'', JStr ''ping'')])"
    "JSON_parse store_down ''ping'' = Some (JObj [(''kind'', JStr ''ping'')])"
    by (simp_all add: store_down_def sample_def sample_parse_def)
  have h2: "kind_of (JObj [(''kind'', JStr ''ping'')]) = Some (JStr ''ping'')"
    by simp
  have pre: "(ws_callsign (sockets room_of_two 1) \<noteq> [] \<longrightarrow>
               query_ok sample (TouchStation (ws_callsign (sockets room_of_two 1))))
             \<and> \<not> send_throws sample 1"
    by (simp add: sample_def)
  have down: "ws_callsign (sockets room_of_two 1) \<noteq> []
             \<and> \<not> query_ok store_down (TouchStation (ws_callsign (sockets room_of_two 1)))"
    by (simp add: room_of_two_def fresh_socket_def store_down_def sample_def)
  note up = ping_answered_with_single_pong [OF h1(1) h2, where s = room_of_two and w = 1]
  note dn = ping_answered_with_single_pong [OF h1(2) h2, where s = room_of_two and w = 1]
  have a: "idx_message sample room_of_two 1 ''ping'' =
       (room_of_two,
        [Query (TouchStation ''K1ABC''), Stringify (JObj [(''kind'', JStr ''pong'')]),
         Send 1 ''pong''],
        Inr ())"
    unfolding mp [OF conjunct1 [OF up] pre]
    by (simp add: room_of_two_def fresh_socket_def sample_def sample_stringify_def pong_event_def)
  have b: "idx_message store_down room_of_two 1 ''ping'' =
       (room_of_two, [Query (TouchStation ''K1ABC'')], Inl QueryError)"
    unfolding mp [OF conjunct1 [OF conjunct2 [OF dn]] down]
    by (simp add: room_of_two_def fresh_socket_def)
  have c: "ws_callsign (sockets room_of_two 1) = ''K1ABC''"
    "query_ok sample (TouchStation ''K1ABC'')" "\<not> send_throws sample 1"
    "\<not> query_ok store_down (TouchStation ''K1ABC'')"
    by (simp_all add: room_of_two_def fresh_socket_def store_down_def sample_def)
  show ?thesis
    using h1(1) h2 c a b by (intro conjI)
qed

text \<open>
  Claim C8 as stated fails in two places. When the store rejects the update, the ping
  of socket 1 (joined as K1ABC) gets no pong: the listener ends with the store's error.
  And socket 1 of \<open>anonymous_room\<close>, joined to 7.050 without a callsign, gets its pong
  with no refresh issued.
\<close>

theorem ping_can_miss_pong_or_refresh:
  "member room_of_two ''7.050'' 1
   \<and> idx_message store_down room_of_two 1 ''ping'' =
       (room_of_two, [Query (TouchStation ''K1ABC'')], Inl QueryError)
   \<and> member anonymous_room ''7.050'' 1
   \<and> idx_message sample anonymous_room 1 ''ping'' =
       (anonymous_room, [Stringify (JObj [(''kind'', JStr ''pong'')]), Send 1 ''pong''], Inr ())"
  by (simp add: idx_message_def room_of_two_def anonymous_room_def store_down_def sample_def
      sample_parse_def sample_stringify_def pong_event_def fresh_socket_def member_def Let_def)

section \<open>Properties of the connection listeners\<close>

lemma broadcast_loop_only_sends:
  "e \<in> set (fst (broadcast_loop P socks data members)) \<Longrightarrow> \<exists>v. e = Send v data"
  by (induction members arbitrary: e) (auto split: if_splits prod.splits)

lemma broadcastToChannel_state: "fst (broadcastToChannel P s channel obj) = s"
  by (simp add: broadcastToChannel_def Let_def split: option.splits prod.splits)

lemma broadcastToChannel_shape:
  "\<exists>tr r. broadcastToChannel P s channel obj = (s, tr, r)
     \<and> (\<forall>e \<in> set tr. e = Stringify obj \<or> (\<exists>v. e = Send v (JSON_stringify P obj)))"
proof (cases "channelRooms s channel")
  case None
  then show ?thesis by (simp add: broadcastToChannel_def)
next
  case (Some members)
  obtain tr r where l: "broadcast_loop P (sockets s) (JSON_stringify P obj) members = (tr, r)"
    by (cases "broadcast_loop P (sockets s) (JSON_stringify P obj) members")
  have "\<forall>e \<in> set tr. \<exists>v. e = Send v (JSON_stringify P obj)"
    using broadcast_loop_only_sends [of _ P "sockets s" "JSON_stringify P obj" members] l by simp
  then show ?thesis
    using Some l by (auto simp: broadcastToChannel_def)
qed

lemma member_joinRoom: "member (joinRoom s channel w) channel w"
  by (simp add: member_def joinRoom_def set_add_def split: option.splits)

lemma or_else_nonempty: "d \<noteq> [] \<Longrightarrow> or_else x d \<noteq> []"
  by (simp add: or_else_def split: option.splits)

lemma or_else_missing: "x = None \<or> x = Some [] \<Longrightarrow> or_else x d = d"
  by (auto simp: or_else_def)

lemma DEFAULT_CHANNEL_nonempty: "DEFAULT_CHANNEL P \<noteq> []"
  by (simp add: DEFAULT_CHANNEL_def or_else_nonempty)

lemma idx_connection_shape:
  "\<exists>s' tr r. idx_connection P s w req = (s', tr, r)
     \<and> channelRooms s' =
         (channelRooms s)(or_else (q_channel req) ''7.050'' \<mapsto>
            set_add w (case channelRooms s (or_else (q_channel req) ''7.050'') of
                         None \<Rightarrow> [] | Some xs \<Rightarrow> xs))
     \<and> ws_channel (sockets s' w) = or_else (q_channel req) ''7.050''
     \<and> ws_callsign (sockets s' w) = norm P (q_callsign req)
     \<and> (\<forall>v. Close v \<notin> set tr)
     \<and> (\<forall>e \<in> set tr. is_stringify e \<longrightarrow>
            e = Stringify (presence_event (norm P (q_callsign req)) (or_else (q_channel req) ''7.050'')))
     \<and> (norm P (q_callsign req) = [] \<longrightarrow> tr = [] \<and> r = Inr ())"
proof -
  let ?c = "norm P (q_callsign req)" and ?ch = "or_else (q_channel req) ''7.050''"
  let ?s1 = "s\<lparr>sockets := (sockets s)(w := (sockets s w)\<lparr>ws_channel := ?ch, ws_callsign := ?c\<rparr>)\<rparr>"
  let ?s2 = "joinRoom ?s1 ?ch w"
  obtain tr r where b: "broadcastToChannel P ?s2 ?ch (presence_event ?c ?ch) = (?s2, tr, r)"
    and e: "\<forall>e \<in> set tr. e = Stringify (presence_event ?c ?ch) \<or>
              (\<exists>v. e = Send v (JSON_stringify P (presence_event ?c ?ch)))"
    using broadcastToChannel_shape [of P ?s2 ?ch "presence_event ?c ?ch"] by blast
  show ?thesis
    using b e
    by (cases r) (auto simp: idx_connection_def norm_def Let_def attach_def joinRoom_def)
qed

lemma srv_connection_joined:
  assumes "norm P (q_callsign req) \<noteq> []"
  shows "\<exists>s' tr r. srv_connection P s w req = (s', tr, r)
     \<and> channelRooms s' =
         (channelRooms s)(or_else (q_channel req) (DEFAULT_CHANNEL P) \<mapsto>
            set_add w (case channelRooms s (or_else (q_channel req) (DEFAULT_CHANNEL P)) of
                         None \<Rightarrow> [] | Some xs \<Rightarrow> xs))
     \<and> ws_channel (sockets s' w) = or_else (q_channel req) (DEFAULT_CHANNEL P)
     \<and> ws_callsign (sockets s' w) = norm P (q_callsign req)
     \<and> tr \<noteq> [Close w]"
  using assms DEFAULT_CHANNEL_nonempty [of P]
  by (simp add: srv_connection_def Let_def joinRoom_def or_else_nonempty)

lemma idx_connection_announces:
  assumes "norm P (q_callsign req) \<noteq> []"
      and "query_ok P (UpsertStation (norm P (q_callsign req)) (or_else (q_channel req) ''7.050''))"
      and "\<forall>v \<in> set (set_add w (case channelRooms s (or_else (q_channel req) ''7.050'') of
                                   None \<Rightarrow> [] | Some xs \<Rightarrow> xs)).
             readyState (sockets s v) = OPEN \<longrightarrow> \<not> send_throws P v"
  shows "snd (idx_connection P s w req) =
           (Query (UpsertStation (norm P (q_callsign req)) (or_else (q_channel req) ''7.050'')) #
            Stringify (presence_event (norm P (q_callsign req)) (or_else (q_channel req) ''7.050'')) #
            map (\<lambda>v. Send v (JSON_stringify P
                   (presence_event (norm P (q_callsign req)) (or_else (q_channel req) ''7.050''))))
                (filter (\<lambda>v. readyState (sockets s v) = OPEN)
                   (set_add w (case channelRooms s (or_else (q_channel req) ''7.050'') of
                                 None \<Rightarrow> [] | Some xs \<Rightarrow> xs))),
            Inr ())"
proof -
  let ?c = "norm P (q_callsign req)" and ?ch = "or_else (q_channel req) ''7.050''"
  let ?s1 = "s\<lparr>sockets := (sockets s)(w := (sockets s w)\<lparr>ws_channel := ?ch, ws_callsign := ?c\<rparr>)\<rparr>"
  let ?s2 = "joinRoom ?s1 ?ch w"
  let ?members = "set_add w (case channelRooms s ?ch of None \<Rightarrow> [] | Some xs \<Rightarrow> xs)"
  have room: "channelRooms ?s2 ?ch = Some ?members"
    by (simp add: joinRoom_def)
  have rs: "readyState (sockets ?s2 v) = readyState (sockets s v)" for v
    by (simp add: joinRoom_def)
  have ok: "\<forall>v \<in> set ?members. readyState (sockets ?s2 v) = OPEN \<longrightarrow> \<not> send_throws P v"
    using assms(3) by (simp only: rs)
  have "broadcastToChannel P ?s2 ?ch (presence_event ?c ?ch) =
          (?s2, Stringify (presence_event ?c ?ch) #
                map (\<lambda>v. Send v (JSON_stringify P (presence_event ?c ?ch)))
                    (filter (\<lambda>v. readyState (sockets ?s2 v) = OPEN) ?members), Inr ())"
    using room ok
    by (simp only: broadcastToChannel_def broadcast_loop_no_throw Let_def option.case prod.case)
  then have "broadcastToChannel P ?s2 ?ch (presence_event ?c ?ch) =
          (?s2, Stringify (presence_event ?c ?ch) #
                map (\<lambda>v. Send v (JSON_stringify P (presence_event ?c ?ch)))
                    (filter (\<lambda>v. readyState (sockets s v) = OPEN) ?members), Inr ())"
    by (simp only: rs)
  then show ?thesis
    using assms(1,2) by (simp add: idx_connection_def norm_def Let_def)
qed

text \<open>
  Claim C10, as the code has it. A request whose channel parameter is absent or empty
  is never rejected for that. index.js joins the socket to channel 7.050 and closes
  nothing. server.js substitutes \<open>DEFAULT_CHANNEL\<close>, which is never empty and is 7.050
  when the environment does not set it (or sets it to the empty string), and otherwise
  the value the environment gives: a socket with an identity joins that channel, and
  the listener rejects (closes with no other effect and no state change) exactly when
  the normalized callsign is empty.
\<close>

theorem missing_channel_gets_default:
  assumes "q_channel req = None \<or> q_channel req = Some []"
  shows "member (fst (idx_connection P s w req)) ''7.050'' w
       \<and> ws_channel (sockets (fst (idx_connection P s w req)) w) = ''7.050''
       \<and> Close w \<notin> set (fst (snd (idx_connection P s w req)))
       \<and> (norm P (q_callsign req) \<noteq> [] \<longrightarrow>
            member (fst (srv_connection P s w req)) (DEFAULT_CHANNEL P) w
            \<and> ws_channel (sockets (fst (srv_connection P s w req)) w) = DEFAULT_CHANNEL P)
       \<and> (srv_connection P s w req = (s, [Close w], Inr ()) \<longleftrightarrow> norm P (q_callsign req) = [])
       \<and> DEFAULT_CHANNEL P \<noteq> []
       \<and> (env_DEFAULT_CHANNEL P = None \<or> env_DEFAULT_CHANNEL P = Some [] \<longrightarrow>
            DEFAULT_CHANNEL P = ''7.050'')
       \<and> (\<forall>v. env_DEFAULT_CHANNEL P = Some v \<and> v \<noteq> [] \<longrightarrow> DEFAULT_CHANNEL P = v)"
proof -
  have ch: "or_else (q_channel req) d = d" for d
    using assms by (rule or_else_missing)
  have idx: "member (fst (idx_connection P s w req)) ''7.050'' w
       \<and> ws_channel (sockets (fst (idx_connection P s w req)) w) = ''7.050''
       \<and> Close w \<notin> set (fst (snd (idx_connection P s w req)))"
    using idx_connection_shape [of P s w req]
    by (auto simp: ch member_def set_add_def)
  have srv: "norm P (q_callsign req) \<noteq> [] \<Longrightarrow>
            member (fst (srv_connection P s w req)) (DEFAULT_CHANNEL P) w
            \<and> ws_channel (sockets (fst (srv_connection P s w req)) w) = DEFAULT_CHANNEL P
            \<and> srv_connection P s w req \<noteq> (s, [Close w], Inr ())"
    using srv_connection_joined [where req = req and P = P and s = s and w = w]
    by (auto simp: ch member_def set_add_def)
  have rej: "norm P (q_callsign req) = [] \<Longrightarrow> srv_connection P s w req = (s, [Close w], Inr ())"
    by (simp add: srv_connection_def)
  have dflt: "env_DEFAULT_CHANNEL P = None \<or> env_DEFAULT_CHANNEL P = Some [] \<longrightarrow>
            DEFAULT_CHANNEL P = ''7.050''"
    by (auto simp: DEFAULT_CHANNEL_def or_else_def)
  have conf: "\<forall>v. env_DEFAULT_CHANNEL P = Some v \<and> v \<noteq> [] \<longrightarrow> DEFAULT_CHANNEL P = v"
    by (auto simp: DEFAULT_CHANNEL_def or_else_def)
  show ?thesis
    using idx srv rej dflt conf DEFAULT_CHANNEL_nonempty [of P] by blast
qed

theorem missing_channel_gets_default_witness:
  "q_channel channelless_request = None
   \<and> norm sample (q_callsign channelless_request) = ''K1ABC''
   \<and> env_DEFAULT_CHANNEL sample = None
   \<and> member (fst (idx_connection sample initial 1 channelless_request)) ''7.050'' 1
   \<and> ws_channel (sockets (fst (idx_connection sample initial 1 channelless_request)) 1) = ''7.050''
   \<and> DEFAULT_CHANNEL sample = ''7.050''
   \<and> member (fst (srv_connection sample initial 1 channelless_request)) ''7.050'' 1
   \<and> srv_connection sample initial 1 channelless_request \<noteq> (initial, [Close 1], Inr ())"
proof -
  have h: "q_channel channelless_request = None \<or> q_channel channelless_request = Some []"
    by (simp add: channelless_request_def)
  have n: "norm sample (q_callsign channelless_request) = ''K1ABC''"
    by (simp add: channelless_request_def norm_def or_else_def sample_def sample_trim_def
        sample_toUpperCase_def sample_upper_def sample_is_space_def)
  have d: "DEFAULT_CHANNEL sample = ''7.050''"
    by (simp add: DEFAULT_CHANNEL_def sample_def or_else_def)
  have e: "env_DEFAULT_CHANNEL sample = None"
    by (simp add: sample_def)
  show ?thesis
    using missing_channel_gets_default [OF h, where P = sample and s = initial and w = 1] n d e
    by (simp add: channelless_request_def)
qed

text \<open>
  Claim C10 as stated fails on the value of the default in server.js: with
  \<^verbatim>\<open>DEFAULT_CHANNEL=14.070\<close> in the environment, a request with a callsign and no
  channel joins 14.070, not 7.050.
\<close>

theorem configured_default_replaces_7050:
  "q_channel channelless_request = None
   \<and> DEFAULT_CHANNEL other_default = ''14.070''
   \<and> member (fst (srv_connection other_default initial 1 channelless_request)) ''14.070'' 1
   \<and> ws_channel (sockets (fst (srv_connection other_default initial 1 channelless_request)) 1) =
       ''14.070''
   \<and> \<not> member (fst (srv_connection other_default initial 1 channelless_request)) ''7.050'' 1"
  by (simp add: channelless_request_def srv_connection_def norm_def or_else_def
      other_default_def sample_def sample_trim_def sample_toUpperCase_def sample_upper_def
      sample_is_space_def joinRoom_def set_add_def member_def initial_def DEFAULT_CHANNEL_def
      Let_def)

text \<open>
  Claim C1, as the code has it. The identity of a request is its callsign trimmed and
  upper-cased by the platform's string methods; it is empty for a missing or empty
  callsign wherever those methods keep the empty string empty. A request whose identity
  is empty is closed at once by server.js and by its unnamed copy, with the state
  unchanged and no statement issued; the unnamed copy does the same for a missing or
  empty channel. server.js rejects nothing else: a socket with an identity always joins
  the room of its channel, a missing channel being replaced by the default. index.js
  rejects nothing at all: every socket joins the room of its channel and none is closed;
  without an identity it issues no statement and sends nothing.
\<close>

theorem connect_without_identity_or_channel:
  "(trim P [] = [] \<and> toUpperCase P [] = []
      \<and> (q_callsign req = None \<or> q_callsign req = Some []) \<longrightarrow> norm P (q_callsign req) = [])
   \<and> (norm P (q_callsign req) = [] \<longrightarrow> srv_connection P s w req = (s, [Close w], Inr ()))
   \<and> (norm P (q_callsign req) = [] \<or> or_else (q_channel req) [] = [] \<longrightarrow>
        p0_connection P s w req = (s, [Close w], Inr ()))
   \<and> (norm P (q_callsign req) \<noteq> [] \<longrightarrow>
        member (fst (srv_connection P s w req)) (or_else (q_channel req) (DEFAULT_CHANNEL P)) w)
   \<and> member (fst (idx_connection P s w req)) (or_else (q_channel req) ''7.050'') w
   \<and> (\<forall>v. Close v \<notin> set (fst (snd (idx_connection P s w req))))
   \<and> (norm P (q_callsign req) = [] \<longrightarrow> snd (idx_connection P s w req) = ([], Inr ()))"
proof -
  have srv: "norm P (q_callsign req) \<noteq> [] \<Longrightarrow>
        member (fst (srv_connection P s w req)) (or_else (q_channel req) (DEFAULT_CHANNEL P)) w"
    using srv_connection_joined [where req = req and P = P and s = s and w = w]
    by (auto simp: member_def set_add_def)
  have idx: "member (fst (idx_connection P s w req)) (or_else (q_channel req) ''7.050'') w
   \<and> (\<forall>v. Close v \<notin> set (fst (snd (idx_connection P s w req))))
   \<and> (norm P (q_callsign req) = [] \<longrightarrow> snd (idx_connection P s w req) = ([], Inr ()))"
    using idx_connection_shape [of P s w req] by (auto simp: member_def set_add_def)
  have missing: "trim P [] = [] \<and> toUpperCase P [] = []
      \<and> (q_callsign req = None \<or> q_callsign req = Some []) \<longrightarrow> norm P (q_callsign req) = []"
    by (auto simp: norm_def or_else_def)
  have rej: "norm P (q_callsign req) = [] \<longrightarrow> srv_connection P s w req = (s, [Close w], Inr ())"
    "norm P (q_callsign req) = [] \<or> or_else (q_channel req) [] = [] \<longrightarrow>
        p0_connection P s w req = (s, [Close w], Inr ())"
    by (auto simp: srv_connection_def p0_connection_def)
  show ?thesis
    using srv idx missing rej by blast
qed

theorem connect_without_identity_or_channel_witness:
  "trim sample [] = [] \<and> toUpperCase sample [] = []
   \<and> q_callsign anonymous_request = None
   \<and> norm sample (q_callsign anonymous_request) = []
   \<and> q_callsign blank_request = Some ''  ''
   \<and> norm sample (q_callsign blank_request) = []
   \<and> srv_connection sample initial 1 blank_request = (initial, [Close 1], Inr ())
   \<and> p0_connection sample initial 1 blank_request = (initial, [Close 1], Inr ())
   \<and> srv_connection sample initial 1 anonymous_request = (initial, [Close 1], Inr ())
   \<and> p0_connection sample initial 1 anonymous_request = (initial, [Close 1], Inr ())
   \<and> or_else (q_channel channelless_request) [] = []
   \<and> p0_connection sample initial 1 channelless_request = (initial, [Close 1], Inr ())
   \<and> norm sample (q_callsign channelless_request) = ''K1ABC''
   \<and> member (fst (srv_connection sample initial 1 channelless_request)) ''7.050'' 1
   \<and> member (fst (idx_connection sample initial 1 anonymous_request)) ''7.050'' 1
   \<and> snd (idx_connection sample initial 1 anonymous_request) = ([], Inr ())"
proof -
  have n1: "norm sample (q_callsign anonymous_request) = []"
    by (simp add: anonymous_request_def norm_def or_else_def sample_def sample_trim_def
        sample_toUpperCase_def)
  have n2: "norm sample (q_callsign channelless_request) = ''K1ABC''"
    by (simp add: channelless_request_def norm_def or_else_def sample_def sample_trim_def
        sample_toUpperCase_def sample_upper_def sample_is_space_def)
  have c2: "or_else (q_channel channelless_request) [] = []"
    by (simp add: channelless_request_def or_else_def)
  have d: "or_else (q_channel channelless_request) (DEFAULT_CHANNEL sample) = ''7.050''"
    by (simp add: DEFAULT_CHANNEL_def sample_def or_else_def channelless_request_def)
  have e: "or_else (q_channel anonymous_request) ''7.050'' = ''7.050''"
    by (simp add: or_else_def anonymous_request_def)
  have n3: "norm sample (q_callsign blank_request) = []" "q_callsign blank_request = Some ''  ''"
    by (simp_all add: blank_request_def norm_def or_else_def sample_def sample_trim_def
        sample_toUpperCase_def sample_is_space_def)
  have m: "trim sample [] = []" "toUpperCase sample [] = []" "q_callsign anonymous_request = None"
    by (simp_all add: sample_def sample_trim_def sample_toUpperCase_def anonymous_request_def)
  show ?thesis
    using connect_without_identity_or_channel
        [where req = anonymous_request and P = sample and s = initial and w = 1]
      connect_without_identity_or_channel
        [where req = channelless_request and P = sample and s = initial and w = 1]
      connect_without_identity_or_channel
        [where req = blank_request and P = sample and s = initial and w = 1]
      n1 n2 n3 m c2 d e
    by simp
qed

text \<open>
  Claim C1 as stated fails in both listeners it names: index.js puts a socket that gave
  no callsign into room 7.050 and does not close it; server.js takes a request that
  gave a callsign and no channel, joins it to 7.050, writes its station row and greets
  it.
\<close>

theorem index_joins_without_identity:
  "norm sample (q_callsign anonymous_request) = []
   \<and> member (fst (idx_connection sample initial 1 anonymous_request)) ''7.050'' 1
   \<and> snd (idx_connection sample initial 1 anonymous_request) = ([], Inr ())
   \<and> q_channel channelless_request = None
   \<and> member (fst (srv_connection sample initial 1 channelless_request)) ''7.050'' 1
   \<and> snd (srv_connection sample initial 1 channelless_request) =
       ([Query (UpsertStation ''K1ABC'' ''7.050''), Stringify (hello_event ''K1ABC'' ''7.050''),
         Send 1 ''hello''], Inr ())"
  by (simp add: anonymous_request_def channelless_request_def idx_connection_def
      srv_connection_def norm_def or_else_def sample_trim_def sample_toUpperCase_def
      sample_upper_def sample_is_space_def
      joinRoom_def set_add_def member_def initial_def attach_def sample_def DEFAULT_CHANNEL_def
      sample_stringify_def hello_event_def Let_def)

text \<open>
  Claim C7, as the code has it. In server.js and in its unnamed copy a socket that
  joins (non-empty identity and channel, store write accepted, send returning normally)
  makes the listener issue the station upsert, serialize the hello event carrying that
  identity (the callsign trimmed and upper-cased) and channel, and send it to that
  socket: the only send of the handler. In index.js the only event the connection
  listener ever serializes is the presence event of the joining identity and channel,
  never a hello; when the identity is not empty, the store accepts the write and
  \<^verbatim>\<open>send\<close> returns normally on the open members, it is sent to every open member of
  the channel, the joining socket included.
\<close>

theorem hello_only_from_server_variants:
  "(norm P (q_callsign req) \<noteq> []
      \<and> query_ok P (UpsertStation (norm P (q_callsign req)) (or_else (q_channel req) (DEFAULT_CHANNEL P)))
      \<and> \<not> send_throws P w \<longrightarrow>
      snd (srv_connection P s w req) =
        ([Query (UpsertStation (norm P (q_callsign req)) (or_else (q_channel req) (DEFAULT_CHANNEL P))),
          Stringify (hello_event (norm P (q_callsign req)) (or_else (q_channel req) (DEFAULT_CHANNEL P))),
          Send w (JSON_stringify P
                    (hello_event (norm P (q_callsign req)) (or_else (q_channel req) (DEFAULT_CHANNEL P))))],
         Inr ()))
   \<and> (norm P (q_callsign req) \<noteq> [] \<and> or_else (q_channel req) [] \<noteq> []
      \<and> query_ok P (UpsertStation (norm P (q_callsign req)) (or_else (q_channel req) []))
      \<and> \<not> send_throws P w \<longrightarrow>
      snd (p0_connection P s w req) =
        ([Query (UpsertStation (norm P (q_callsign req)) (or_else (q_channel req) [])),
          Stringify (hello_event (norm P (q_callsign req)) (or_else (q_channel req) [])),
          Send w (JSON_stringify P (hello_event (norm P (q_callsign req)) (or_else (q_channel req) [])))],
         Inr ()))
   \<and> (\<forall>e \<in> set (fst (snd (idx_connection P s w req))).
         is_stringify e \<longrightarrow>
         e = Stringify (presence_event (norm P (q_callsign req)) (or_else (q_channel req) ''7.050'')))
   \<and> (norm P (q_callsign req) \<noteq> []
      \<and> query_ok P (UpsertStation (norm P (q_callsign req)) (or_else (q_channel req) ''7.050''))
      \<and> (\<forall>v \<in> set (set_add w (case channelRooms s (or_else (q_channel req) ''7.050'') of
                                    None \<Rightarrow> [] | Some xs \<Rightarrow> xs)).
              readyState (sockets s v) = OPEN \<longrightarrow> \<not> send_throws P v) \<longrightarrow>
      snd (idx_connection P s w req) =
        (Query (UpsertStation (norm P (q_callsign req)) (or_else (q_channel req) ''7.050'')) #
         Stringify (presence_event (norm P (q_callsign req)) (or_else (q_channel req) ''7.050'')) #
         map (\<lambda>v. Send v (JSON_stringify P
                (presence_event (norm P (q_callsign req)) (or_else (q_channel req) ''7.050''))))
             (filter (\<lambda>v. readyState (sockets s v) = OPEN)
                (set_add w (case channelRooms s (or_else (q_channel req) ''7.050'') of
                              None \<Rightarrow> [] | Some xs \<Rightarrow> xs))),
         Inr ()))"
proof -
  have idx: "\<forall>e \<in> set (fst (snd (idx_connection P s w req))).
         is_stringify e \<longrightarrow>
         e = Stringify (presence_event (norm P (q_callsign req)) (or_else (q_channel req) ''7.050''))"
    using idx_connection_shape [of P s w req] by auto
  have srv: "snd (srv_connection P s w req) =
        ([Query (UpsertStation (norm P (q_callsign req)) (or_else (q_channel req) (DEFAULT_CHANNEL P))),
          Stringify (hello_event (norm P (q_callsign req)) (or_else (q_channel req) (DEFAULT_CHANNEL P))),
          Send w (JSON_stringify P
                    (hello_event (norm P (q_callsign req)) (or_else (q_channel req) (DEFAULT_CHANNEL P))))],
         Inr ())"
    if "norm P (q_callsign req) \<noteq> []"
      and "query_ok P (UpsertStation (norm P (q_callsign req)) (or_else (q_channel req) (DEFAULT_CHANNEL P)))"
      and "\<not> send_throws P w"
    using that DEFAULT_CHANNEL_nonempty [of P]
    by (simp add: srv_connection_def Let_def or_else_nonempty)
  have p0: "snd (p0_connection P s w req) =
        ([Query (UpsertStation (norm P (q_callsign req)) (or_else (q_channel req) [])),
          Stringify (hello_event (norm P (q_callsign req)) (or_else (q_channel req) [])),
          Send w (JSON_stringify P (hello_event (norm P (q_callsign req)) (or_else (q_channel req) [])))],
         Inr ())"
    if "norm P (q_callsign req) \<noteq> []" and "or_else (q_channel req) [] \<noteq> []"
      and "query_ok P (UpsertStation (norm P (q_callsign req)) (or_else (q_channel req) []))"
      and "\<not> send_throws P w"
    using that by (simp add: p0_connection_def Let_def)
  show ?thesis
    using idx srv p0 idx_connection_announces [where req = req and P = P and w = w and s = s]
    by (intro conjI impI) blast+
qed

theorem hello_only_from_server_variants_witness:
  "norm sample (q_callsign full_request) = ''K1ABC''
   \<and> or_else (q_channel full_request) (DEFAULT_CHANNEL sample) = ''7.050''
   \<and> query_ok sample (UpsertStation ''K1ABC'' ''7.050'')
   \<and> \<not> send_throws sample 3
   \<and> snd (srv_connection sample room_of_two 3 full_request) =
       ([Query (UpsertStation ''K1ABC'' ''7.050''), Stringify (hello_event ''K1ABC'' ''7.050''),
         Send 3 ''hello''], Inr ())
   \<and> snd (p0_connection sample room_of_two 3 full_request) =
       ([Query (UpsertStation ''K1ABC'' ''7.050''), Stringify (hello_event ''K1ABC'' ''7.050''),
         Send 3 ''hello''], Inr ())
   \<and> filter is_stringify (fst (snd (idx_connection sample room_of_two 3 full_request))) =
       [Stringify (presence_event ''K1ABC'' ''7.050'')]
   \<and> sent_to 1 (fst (snd (idx_connection sample room_of_two 3 full_request))) = [''presence'']"
proof -
  have n: "norm sample (q_callsign full_request) = ''K1ABC''"
    by (simp add: full_request_def norm_def or_else_def sample_def sample_trim_def
        sample_toUpperCase_def sample_upper_def sample_is_space_def)
  have d: "or_else (q_channel full_request) (DEFAULT_CHANNEL sample) = ''7.050''"
    "or_else (q_channel full_request) [] = ''7.050''"
    by (simp_all add: full_request_def or_else_def)
  have q: "query_ok sample (UpsertStation ''K1ABC'' ''7.050'')" "\<not> send_throws sample 3"
    by (simp_all add: sample_def)
  have h: "JSON_stringify sample (hello_event ''K1ABC'' ''7.050'') = ''hello''"
    by (simp add: sample_def sample_stringify_def hello_event_def)
  have i: "filter is_stringify (fst (snd (idx_connection sample room_of_two 3 full_request))) =
       [Stringify (presence_event ''K1ABC'' ''7.050'')]"
    "sent_to 1 (fst (snd (idx_connection sample room_of_two 3 full_request))) = [''presence'']"
    by (simp_all add: sample_stringify_def presence_event_def full_request_def idx_connection_def broadcastToChannel_def
        or_else_def sample_trim_def sample_toUpperCase_def sample_upper_def
        sample_is_space_def
        joinRoom_def set_add_def room_of_two_def attach_def sample_def
        fresh_socket_def OPEN_def Let_def)
  show ?thesis
    using hello_only_from_server_variants
        [where req = full_request and P = sample and w = 3 and s = room_of_two] n d q h i
    by simp
qed

text \<open>
  Claim C7 as stated fails in index.js: socket 3 joins 7.050 as K1ABC beside sockets 1
  and 2, and the listener broadcasts the presence event to all three; no send carries
  the hello event.
\<close>

theorem index_announces_presence_without_hello:
  "norm sample (q_callsign full_request) = ''K1ABC''
   \<and> member (fst (idx_connection sample room_of_two 3 full_request)) ''7.050'' 3
   \<and> snd (idx_connection sample room_of_two 3 full_request) =
       ([Query (UpsertStation ''K1ABC'' ''7.050''), Stringify (presence_event ''K1ABC'' ''7.050''),
         Send 1 ''presence'', Send 2 ''presence'', Send 3 ''presence''], Inr ())
   \<and> JSON_stringify sample (hello_event ''K1ABC'' ''7.050'') = ''hello''"
  by (simp add: full_request_def idx_connection_def broadcastToChannel_def
      norm_def or_else_def sample_trim_def sample_toUpperCase_def
      sample_upper_def sample_is_space_def
      joinRoom_def set_add_def member_def room_of_two_def attach_def sample_def
      sample_stringify_def hello_event_def presence_event_def fresh_socket_def OPEN_def Let_def)

section \<open>Properties of the heartbeat and of leaving\<close>

text \<open>
  What holds of the three variants in general: a timer tick of server.js changes no
  room, stops no timer and closes nothing; leaving removes the socket in index.js and
  server.js; and from the initial state neither index.js nor server.js ever holds a
  room without members.
\<close>

lemma srv_heartbeat_never_reaps:
  "channelRooms (fst (srv_heartbeat P s w)) = channelRooms s
   \<and> heartbeat (sockets (fst (srv_heartbeat P s w)) v) = heartbeat (sockets s v)
   \<and> Close v \<notin> set (fst (snd (srv_heartbeat P s w)))"
  by (simp add: srv_heartbeat_def Let_def)

lemma leaveRoom_removes: "\<not> member (leaveRoom s channel w) channel w"
  by (simp add: leaveRoom_def member_def set_delete_def Let_def split: option.splits)

lemma srv_close_removes: "\<not> member (srv_close s w) (ws_channel (sockets s w)) w"
  by (simp add: srv_close_def cleanupChannelIfEmpty_def delete_member_def member_def
      set_delete_def Let_def split: option.splits)

lemma leaveRoom_keeps_rooms_inhabited:
  "\<forall>ch. channelRooms s ch \<noteq> Some [] \<Longrightarrow> channelRooms (leaveRoom s channel w) ch \<noteq> Some []"
  by (simp add: leaveRoom_def Let_def split: option.splits)

lemma srv_close_keeps_rooms_inhabited:
  "\<forall>ch. channelRooms s ch \<noteq> Some [] \<Longrightarrow> channelRooms (srv_close s w) ch \<noteq> Some []"
  by (simp add: srv_close_def cleanupChannelIfEmpty_def delete_member_def Let_def
      split: option.splits)

lemma set_add_nonempty: "set_add w xs \<noteq> []"
  by (cases xs) (auto simp: set_add_def)

lemma rooms_with_member_inhabited:
  "\<forall>ch. m ch \<noteq> Some [] \<Longrightarrow> (m(c \<mapsto> set_add w xs)) ch \<noteq> Some []"
  by (simp add: set_add_nonempty)

lemma idx_message_state: "fst (idx_message P s w raw) = s"
  by (simp add: idx_message_def Let_def broadcastToChannel_state split: option.splits)

lemma idx_event_keeps_rooms_inhabited:
  assumes "\<forall>ch. channelRooms s ch \<noteq> Some []"
  shows "channelRooms (fst (idx_event P s e)) ch \<noteq> Some []"
proof (cases e)
  case (Connection w req)
  then show ?thesis
    using idx_connection_shape [of P s w req] rooms_with_member_inhabited [OF assms]
    by (auto simp del: fun_upd_apply)
next
  case (Message w raw)
  then show ?thesis
    using assms by (simp add: idx_message_state)
next
  case (Closed w)
  have "\<forall>ch. channelRooms (set_readyState s w 3) ch \<noteq> Some []"
    using assms by (simp add: set_readyState_def)
  then show ?thesis
    using Closed assms leaveRoom_keeps_rooms_inhabited [of "set_readyState s w 3"]
    by (simp add: idx_close_def Let_def)
qed (use assms in \<open>simp_all add: set_readyState_def\<close>)

lemma srv_connection_rooms:
  "channelRooms (fst (srv_connection P s w req)) = channelRooms s
   \<or> (\<exists>ch. channelRooms (fst (srv_connection P s w req)) =
        (channelRooms s)(ch \<mapsto> set_add w (case channelRooms s ch of None \<Rightarrow> [] | Some xs \<Rightarrow> xs)))"
  by (auto simp: srv_connection_def Let_def joinRoom_def)

lemma srv_event_keeps_rooms_inhabited:
  assumes "\<forall>ch. channelRooms s ch \<noteq> Some []"
  shows "channelRooms (fst (srv_event P s e)) ch \<noteq> Some []"
proof (cases e)
  case (Connection w req)
  then show ?thesis
    using assms srv_connection_rooms [of P s w req] rooms_with_member_inhabited [OF assms]
    by (auto simp del: fun_upd_apply)
next
  case (Closed w)
  have "\<forall>ch. channelRooms (set_readyState s w 3) ch \<noteq> Some []"
    using assms by (simp add: set_readyState_def)
  then show ?thesis
    using Closed assms srv_close_keeps_rooms_inhabited [of "set_readyState s w 3"]
    by (simp add: Let_def)
next
  case (Tick w)
  then show ?thesis
    using assms srv_heartbeat_never_reaps [of P s w] by simp
qed (use assms in \<open>simp_all add: set_readyState_def srv_message_def srv_pong_def\<close>)

lemma run_keeps_rooms_inhabited:
  assumes step: "\<And>s e ch. \<forall>ch. channelRooms s ch \<noteq> Some [] \<Longrightarrow>
                   channelRooms (fst (step s e)) ch \<noteq> Some []"
      and "\<forall>ch. channelRooms s ch \<noteq> Some []"
  shows "channelRooms (fst (run step s es)) ch \<noteq> Some []"
  using assms(2)
proof (induction es arbitrary: s)
  case Nil
  then show ?case by simp
next
  case (Cons e es)
  obtain s1 t1 r where e: "step s e = (s1, t1, r)"
    by (cases "step s e")
  have "\<forall>ch. channelRooms s1 ch \<noteq> Some []"
    using step [OF Cons.prems, of e] e by simp
  then have "channelRooms (fst (run step s1 es)) ch \<noteq> Some []"
    by (rule Cons.IH)
  moreover obtain s2 t2 where "run step s1 es = (s2, t2)"
    by (cases "run step s1 es")
  ultimately show ?case
    using e by simp
qed

lemma index_never_keeps_empty_room:
  "channelRooms (fst (run (idx_event P) initial es)) ch \<noteq> Some []"
  by (rule run_keeps_rooms_inhabited) (simp_all add: idx_event_keeps_rooms_inhabited initial_def)

lemma server_never_keeps_empty_room:
  "channelRooms (fst (run (srv_event P) initial es)) ch \<noteq> Some []"
  by (rule run_keeps_rooms_inhabited) (simp_all add: srv_event_keeps_rooms_inhabited initial_def)

lemma srv_tick_never_reaps:
  "channelRooms (fst (srv_event P s (Tick w))) = channelRooms s
   \<and> heartbeat (sockets (fst (srv_event P s (Tick w))) v) = heartbeat (sockets s v)
   \<and> Close v \<notin> set (fst (snd (srv_event P s (Tick w))))"
  using srv_heartbeat_never_reaps [of P s w v] by simp

text \<open>
  Claim C2 asks that a socket whose pong is missing between two ticks be closed, its
  timer stopped and its room left. server.js does none of it: after socket 1 joins and
  three ticks pass with no pong, the socket is still a member of 7.050, its timer still
  runs, \<open>isAlive\<close> is false, and the calls made by the ticks are pings and station
  updates only.
\<close>

theorem missed_pong_is_not_reaped:
  "member (fst (run (srv_event sample) initial missed_pong)) ''7.050'' 1
   \<and> heartbeat (sockets (fst (run (srv_event sample) initial missed_pong)) 1)
   \<and> \<not> isAlive (sockets (fst (run (srv_event sample) initial missed_pong)) 1)
   \<and> snd (run (srv_event sample) initial missed_pong) =
       [Query (UpsertStation ''K1ABC'' ''7.050''), Stringify (hello_event ''K1ABC'' ''7.050''),
        Send 1 ''hello'',
        Ping 1, Query (UpdateStation ''K1ABC'' ''7.050''),
        Ping 1, Query (UpdateStation ''K1ABC'' ''7.050''),
        Ping 1, Query (UpdateStation ''K1ABC'' ''7.050'')]"
  by code_simp

text \<open>
  Claim C4 asks that the room of a channel be deleted when its last member leaves. The
  close listener of the unnamed copy of server.js only removes the socket from the set:
  after socket 1 joins 7.050 and closes, the registry still maps 7.050 to an empty set.
  The same two events leave no entry in server.js and in index.js.
\<close>

theorem unnamed_copy_keeps_emptied_room:
  "channelRooms (fst (run (p0_event sample) initial join_then_close)) ''7.050'' = Some []
   \<and> channelRooms (fst (run (srv_event sample) initial join_then_close)) ''7.050'' = None
   \<and> channelRooms (fst (run (idx_event sample) initial join_then_close)) ''7.050'' = None"
  by code_simp

section \<open>Properties of GET /v1/messages/recent\<close>

lemma select_recent_descending: "sorted (rev (map m_id (select_recent table channel limit)))"
proof -
  let ?xs = "rev (sort_key m_id (filter (\<lambda>r. m_channel r = channel) table))"
  have "sorted (rev (map m_id ?xs))"
    by (simp add: rev_map)
  then have "sorted (rev (map m_id (take (nat limit) ?xs @ drop (nat limit) ?xs)))"
    by simp
  then have "sorted (rev (map m_id (take (nat limit) ?xs)))"
    by (simp only: map_append rev_append sorted_append)
  then show ?thesis
    by (simp add: select_recent_def)
qed

lemma select_recent_newest:
  assumes "r \<in> set table" "m_channel r = channel" "r \<notin> set (select_recent table channel limit)"
      and "x \<in> set (select_recent table channel limit)"
  shows "m_id r \<le> m_id x"
proof -
  let ?xs = "rev (sort_key m_id (filter (\<lambda>r. m_channel r = channel) table))"
  have "r \<in> set ?xs" using assms(1,2) by simp
  moreover have "set ?xs = set (take (nat limit) ?xs) \<union> set (drop (nat limit) ?xs)"
    by (metis append_take_drop_id set_append)
  moreover have "r \<notin> set (take (nat limit) ?xs)"
    using assms(3) by (simp add: select_recent_def)
  ultimately have rd: "r \<in> set (drop (nat limit) ?xs)"
    by blast
  have xt: "x \<in> set (take (nat limit) ?xs)"
    using assms(4) by (simp add: select_recent_def)
  have "sorted (rev (map m_id ?xs))"
    by (simp add: rev_map)
  then have "sorted (rev (map m_id (take (nat limit) ?xs @ drop (nat limit) ?xs)))"
    by simp
  then have "\<forall>a \<in> set (map m_id (drop (nat limit) ?xs)). \<forall>b \<in> set (map m_id (take (nat limit) ?xs)). a \<le> b"
    by (simp only: map_append rev_append sorted_append set_rev) blast
  then show ?thesis
    using rd xt by auto
qed

lemma select_recent_rows:
  "set (select_recent table channel limit) \<subseteq> {r \<in> set table. m_channel r = channel}"
proof -
  have "set (select_recent table channel limit) \<subseteq>
        set (rev (sort_key m_id (filter (\<lambda>r. m_channel r = channel) table)))"
    unfolding select_recent_def by (rule set_take_subset)
  then show ?thesis by auto
qed

lemma select_recent_length:
  "length (select_recent table channel limit) =
     min (nat limit) (length (filter (\<lambda>r. m_channel r = channel) table))"
  by (simp add: select_recent_def min.commute)

lemma clamp_limit_range: "1 \<le> cap \<Longrightarrow> 1 \<le> clamp_limit cap l \<and> clamp_limit cap l \<le> cap"
  by (auto simp: clamp_limit_def)

text \<open>
  Claim C9. When the store accepts the statement, the handler (index.js and server.js
  alike) answers with the selected rows reversed and otherwise untouched. The selection
  is in descending id order, holds the rows of the channel and no others, as many of
  them as the limit allows, and no row of the channel left out has a larger id than a
  selected one; the answer is therefore the same rows in ascending id order.
\<close>

theorem recent_messages_oldest_first:
  "(query_ok P (SelectRecent (or_else (r_channel req) ''7.050'') (clamp_limit 200 (r_limit req))) \<longrightarrow>
      idx_messages_recent P table req =
        Messages (rev (select_recent table (or_else (r_channel req) ''7.050'')
                         (clamp_limit 200 (r_limit req)))))
   \<and> (query_ok P (SelectRecent (or_else (r_channel req) (DEFAULT_CHANNEL P))
                     (clamp_limit 500 (r_limit req))) \<longrightarrow>
      srv_messages_recent P table req =
        Messages (rev (select_recent table (or_else (r_channel req) (DEFAULT_CHANNEL P))
                         (clamp_limit 500 (r_limit req)))))
   \<and> 1 \<le> clamp_limit 200 (r_limit req) \<and> clamp_limit 200 (r_limit req) \<le> 200
   \<and> 1 \<le> clamp_limit 500 (r_limit req) \<and> clamp_limit 500 (r_limit req) \<le> 500
   \<and> sorted (rev (map m_id (select_recent table channel limit)))
   \<and> sorted (map m_id (rev (select_recent table channel limit)))
   \<and> set (rev (select_recent table channel limit)) = set (select_recent table channel limit)
   \<and> length (select_recent table channel limit) =
       min (nat limit) (length (filter (\<lambda>r. m_channel r = channel) table))
   \<and> set (select_recent table channel limit) \<subseteq> {r \<in> set table. m_channel r = channel}
   \<and> (\<forall>r \<in> set table. \<forall>x \<in> set (select_recent table channel limit).
         m_channel r = channel \<and> r \<notin> set (select_recent table channel limit) \<longrightarrow> m_id r \<le> m_id x)"
proof -
  have copy: "map (\<lambda>x. x\<lparr>m_payload := m_payload x\<rparr>) rows = rows" for rows :: "message_row list"
    by (induction rows) auto
  have r: "idx_messages_recent P table req =
        Messages (rev (select_recent table (or_else (r_channel req) ''7.050'')
                         (clamp_limit 200 (r_limit req))))"
    if "query_ok P (SelectRecent (or_else (r_channel req) ''7.050'') (clamp_limit 200 (r_limit req)))"
    using that by (simp add: idx_messages_recent_def Let_def copy)
  have s: "srv_messages_recent P table req =
        Messages (rev (select_recent table (or_else (r_channel req) (DEFAULT_CHANNEL P))
                         (clamp_limit 500 (r_limit req))))"
    if "query_ok P (SelectRecent (or_else (r_channel req) (DEFAULT_CHANNEL P))
                     (clamp_limit 500 (r_limit req)))"
    using that by (simp add: srv_messages_recent_def Let_def)
  have d: "sorted (map m_id (rev (select_recent table channel limit)))"
    using select_recent_descending [of table channel limit] by (simp add: rev_map)
  show ?thesis
    using r s d select_recent_descending [of table channel limit]
      select_recent_length [of table channel limit] select_recent_rows [of table channel limit]
      select_recent_newest [of _ table channel limit]
      clamp_limit_range [of 200 "r_limit req"] clamp_limit_range [of 500 "r_limit req"]
    by (intro conjI impI ballI) auto
qed

theorem recent_messages_oldest_first_witness:
  "query_ok sample (SelectRecent ''7.050'' 2)
   \<and> or_else (r_channel two_newest) ''7.050'' = ''7.050''
   \<and> clamp_limit 200 (r_limit two_newest) = 2
   \<and> select_recent sample_table ''7.050'' 2 = [row 4 ''7.050'' ''73'', row 3 ''7.050'' ''de'']
   \<and> idx_messages_recent sample sample_table two_newest =
       Messages [row 3 ''7.050'' ''de'', row 4 ''7.050'' ''73'']
   \<and> srv_messages_recent sample sample_table two_newest =
       Messages [row 3 ''7.050'' ''de'', row 4 ''7.050'' ''73'']"
proof -
  have q: "query_ok sample (SelectRecent ''7.050'' 2)"
    by (simp add: sample_def)
  have c: "or_else (r_channel two_newest) ''7.050'' = ''7.050''"
    "or_else (r_channel two_newest) (DEFAULT_CHANNEL sample) = ''7.050''"
    by (simp_all add: two_newest_def or_else_def DEFAULT_CHANNEL_def sample_def)
  have l: "clamp_limit 200 (r_limit two_newest) = 2" "clamp_limit 500 (r_limit two_newest) = 2"
    by (simp_all add: two_newest_def clamp_limit_def)
  have sel: "select_recent sample_table ''7.050'' 2 = [row 4 ''7.050'' ''73'', row 3 ''7.050'' ''de'']"
    by (simp add: select_recent_def sample_table_def row_def)
  show ?thesis
    using recent_messages_oldest_first [of sample two_newest sample_table "''7.050''" 2] q c l sel
    by simp
qed

end
